theory Spec2Isabelle
  imports Main
begin

section \<open>Values shared by the control plane\<close>

text \<open>
  Object identifiers are opaque and compared for equality only; time stamps are ordered.
  A Go \<open>error\<close> is a value: the sentinel of the store driver for an empty result, or an
  error carrying a message. A function returning \<open>error\<close> returns \<open>error option\<close> here,
  \<open>None\<close> standing for \<open>nil\<close>. A Go slice is a list (a nil slice and an empty slice are
  both the empty list).
\<close>

type_synonym ObjectID = nat
type_synonym Time = int

datatype error = ErrNoDocuments | Error string

subsection \<open>Documents of the store\<close>

record Schema =
  Schema_ID :: ObjectID
  Schema_Name :: string
  Schema_Type :: string

record SchemaVersion =
  SV_ID :: ObjectID
  SV_VersionNumber :: int
  SV_Active :: bool
  SV_CreatedByUser :: string
  SV_CreationDate :: Time
  SV_SchemaContent :: string
  SV_SchemaId :: ObjectID
  SV_MessageStructName :: string

record Station =
  Station_ID :: ObjectID
  Station_Name :: string
  Station_FactoryId :: ObjectID
  Station_CreatedByUser :: string
  Station_IsDeleted :: bool
  Station_SchemaName :: "string option"

record Factory =
  Factory_ID :: ObjectID
  Factory_Name :: string

record Connection =
  Connection_ID :: ObjectID
  Connection_ClientAddress :: string
  Connection_CreatedByUser :: string
  Connection_IsActive :: bool

record Producer =
  Producer_ID :: ObjectID
  Producer_Name :: string
  Producer_StationId :: ObjectID
  Producer_FactoryId :: ObjectID
  Producer_Type :: string
  Producer_ConnectionId :: ObjectID
  Producer_CreatedByUser :: string
  Producer_IsActive :: bool
  Producer_CreationDate :: Time
  Producer_IsDeleted :: bool

record AuditLog =
  AuditLog_ID :: ObjectID
  AuditLog_StationName :: string
  AuditLog_Message :: string
  AuditLog_CreatedByUser :: string
  AuditLog_CreationDate :: Time
  AuditLog_UserType :: string

record Tag =
  Tag_Name :: string
  Tag_Color :: string

text \<open>
  The state the handlers work on: one list per collection of the document store, in
  insertion order, and the two counters of the analytics client.
\<close>

record state =
  schemasCollection :: "Schema list"
  schemaVersionCollection :: "SchemaVersion list"
  stationsCollection :: "Station list"
  factoriesCollection :: "Factory list"
  connectionsCollection :: "Connection list"
  producersCollection :: "Producer list"
  auditLogsCollection :: "AuditLog list"
  tagsCollection :: "(Tag \<times> string \<times> ObjectID) list"
  stationsCounter :: nat
  producersCounter :: nat

subsection \<open>The environment of a handler run\<close>

text \<open>
  Every call to the store can fail; \<open>fault\<close> tells, for each call site, whether it does
  and with which error. A failing call leaves the store as it was.
\<close>

datatype store_call =
    UpsertSchema | InsertSchemaVersion | CountVersions | UpsertSchemaVersion
  | UpdateManyVersions | UpdateOneVersion | FindVersions | CursorAllVersions
  | AggregateStations | CursorAllStations | InsertTags
  | InsertStation | InsertAuditLogs | InsertProducer | FindOneAndUpdateProducer
  | FindProducers | CursorAllProducers | FindOneStation | UpdateManyKill
  | UpdateManyRelive | AggregateProducers | CursorAllAggregate

record User =
  User_Username :: string

text \<open>
  The functions below are called by the handlers and defined outside the sources at hand
  (request binding, middleware, lookups by name or id, library parsers and the
  process-wide configuration). Their answers are taken from the environment, as Go tuples
  \<open>(found, document, error)\<close>: this leaves room for whatever the store held at the
  moment of the lookup, a concurrent writer included. \<open>NewObjectID\<close> and \<open>Now\<close> give
  the result of the k-th call of a run.
\<close>

record env =
  SHOWABLE_ERROR_STATUS_CODE :: nat
  NewObjectID :: "nat \<Rightarrow> ObjectID"
  Now :: "nat \<Rightarrow> Time"
  fault :: "store_call \<Rightarrow> error option"
  utils_Validate :: bool
  unicode_ToLower :: "string \<Rightarrow> string"
  protoparse_ParseFiles :: "string \<Rightarrow> string option"
  validateName :: "string \<Rightarrow> string \<Rightarrow> error option"
  IsSchemaExist :: "string \<Rightarrow> bool \<times> Schema \<times> error option"
  isSchemaVersionExists :: "int \<Rightarrow> ObjectID \<Rightarrow> bool \<times> SchemaVersion \<times> error option"
  getUserDetailsFromMiddleware :: "User \<times> error option"
  GetTagsBySchema :: "ObjectID \<Rightarrow> Tag list \<times> error option"
  ObjectIDFromHex :: "string \<Rightarrow> ObjectID \<times> error option"
  IsConnectionExist :: "ObjectID \<Rightarrow> bool \<times> Connection \<times> error option"
  IsStationExist :: "string \<Rightarrow> bool \<times> Station \<times> error option"
  IsProducerExist :: "string \<Rightarrow> ObjectID \<Rightarrow> bool \<times> Producer \<times> error option"
  DefaultStationFactoryId :: ObjectID
  shouldSendAnalytics :: bool

section \<open>Strings\<close>

text \<open>
  A Go string is a sequence of bytes and \<open>len\<close> counts bytes. \<open>strings.ToLower\<close> maps
  the bytes \<open>A\<close>..\<open>Z\<close> to \<open>a\<close>..\<open>z\<close> when the string is pure ASCII, and otherwise
  applies the Unicode lower-case mapping rune by rune, which is taken from the environment.
\<close>

definition isASCII :: "char \<Rightarrow> bool" where
  "isASCII c = ((of_char c :: nat) < 128)"


definition lowerByte :: "char \<Rightarrow> char" where
  "lowerByte c =
     (case map_of (zip ''ABCDEFGHIJKLMNOPQRSTUVWXYZ'' ''abcdefghijklmnopqrstuvwxyz'') c of
        Some l \<Rightarrow> l
      | None \<Rightarrow> c)"

definition ToLower :: "env \<Rightarrow> string \<Rightarrow> string" where
  "ToLower e s = (if list_all isASCII s then map lowerByte s else unicode_ToLower e s)"

section \<open>Schemas\<close>

subsection \<open>Validators\<close>

definition schemaObjectName :: string where
  "schemaObjectName = ''Schema''"

definition SCHEMA_VALIDATION_ERROR_STATUS_CODE :: nat where
  "SCHEMA_VALIDATION_ERROR_STATUS_CODE = 555"

text \<open>
  \<open>validateProtobufContent\<close> hands the content to the protobuf parser, whose accessor
  returns the submitted text for any file name; the parser's verdict (\<open>None\<close>, or the
  diagnostic) comes from the environment.
\<close>

definition validateProtobufContent :: "env \<Rightarrow> string \<Rightarrow> error option" where
  "validateProtobufContent e schemaContent =
     (case protoparse_ParseFiles e schemaContent of
        Some diag \<Rightarrow> Some (Error (''Your Proto file is invalid: '' @ diag))
      | None \<Rightarrow> None)"

definition validateSchemaName :: "env \<Rightarrow> string \<Rightarrow> error option" where
  "validateSchemaName e schemaName = validateName e schemaName schemaObjectName"

definition validateSchemaType :: "string \<Rightarrow> error option" where
  "validateSchemaType schemaType =
     (if schemaType = ''protobuf'' then None
      else if schemaType = ''avro'' \<or> schemaType = ''json''
        then Some (Error ''Json/Avro types are not supported at this time'')
      else Some (Error ''unsupported schema type''))"

definition validateSchemaContent :: "env \<Rightarrow> string \<Rightarrow> string \<Rightarrow> error option" where
  "validateSchemaContent e schemaContent schemaType =
     (if length schemaContent = 0 then Some (Error ''Your schema content is invalid'')
      else if schemaType = ''protobuf'' then validateProtobufContent e schemaContent
      else None)"

definition validateMessageStructName :: "string \<Rightarrow> error option" where
  "validateMessageStructName messageStructName =
     (if messageStructName = ''''
        then Some (Error ''Message struct name is required when schema type is Protobuf'')
      else None)"

definition Error_text :: "error \<Rightarrow> string" where
  "Error_text err = (case err of ErrNoDocuments \<Rightarrow> ''mongo: no documents in result'' | Error m \<Rightarrow> m)"

subsection \<open>Store operations on schemas and versions\<close>

text \<open>
  \<open>UpdateOne\<close> with \<open>upsert\<close> and a \<open>$setOnInsert\<close> update: when a document matches the
  filter nothing is written and \<open>MatchedCount\<close> is 1; otherwise the document made of the
  filter and the \<open>$setOnInsert\<close> fields is inserted and \<open>MatchedCount\<close> is 0.
\<close>

definition upsertSchema :: "Schema \<Rightarrow> Schema list \<Rightarrow> nat \<times> Schema list" where
  "upsertSchema new coll =
     (if list_ex (\<lambda>s. Schema_Name s = Schema_Name new) coll then (1, coll)
      else (0, coll @ [new]))"

definition upsertSchemaVersion :: "SchemaVersion \<Rightarrow> SchemaVersion list \<Rightarrow> nat \<times> SchemaVersion list" where
  "upsertSchemaVersion new coll =
     (if list_ex (\<lambda>v. SV_SchemaId v = SV_SchemaId new \<and> SV_VersionNumber v = SV_VersionNumber new) coll
        then (1, coll)
      else (0, coll @ [new]))"

text \<open>\<open>UpdateOne\<close> changes the first document that matches, \<open>UpdateMany\<close> all of them.\<close>

fun updateOne :: "('a \<Rightarrow> bool) \<Rightarrow> ('a \<Rightarrow> 'a) \<Rightarrow> 'a list \<Rightarrow> 'a list" where
  "updateOne P f [] = []"
| "updateOne P f (x # xs) = (if P x then f x # xs else x # updateOne P f xs)"

definition updateMany :: "('a \<Rightarrow> bool) \<Rightarrow> ('a \<Rightarrow> 'a) \<Rightarrow> 'a list \<Rightarrow> 'a list" where
  "updateMany P f xs = map (\<lambda>x. if P x then f x else x) xs"

definition updateActiveVersion :: "env \<Rightarrow> ObjectID \<Rightarrow> int \<Rightarrow> state \<Rightarrow> error option \<times> state" where
  "updateActiveVersion e schemaId versionNumber s =
     (case fault e UpdateManyVersions of
        Some err \<Rightarrow> (Some err, s)
      | None \<Rightarrow>
          (let s1 = s\<lparr>schemaVersionCollection :=
                        updateMany (\<lambda>v. SV_SchemaId v = schemaId) (\<lambda>v. v\<lparr>SV_Active := False\<rparr>)
                          (schemaVersionCollection s)\<rparr>
           in (case fault e UpdateOneVersion of
                Some err \<Rightarrow> (Some err, s1)
              | None \<Rightarrow>
                  (None, s1\<lparr>schemaVersionCollection :=
                              updateOne (\<lambda>v. SV_SchemaId v = schemaId \<and> SV_VersionNumber v = versionNumber)
                                (\<lambda>v. v\<lparr>SV_Active := True\<rparr>) (schemaVersionCollection s1)\<rparr>))))"

definition getVersionsCount :: "env \<Rightarrow> ObjectID \<Rightarrow> state \<Rightarrow> int \<times> error option" where
  "getVersionsCount e schemaId s =
     (case fault e CountVersions of
        Some err \<Rightarrow> (0, Some err)
      | None \<Rightarrow> (int (length (filter (\<lambda>v. SV_SchemaId v = schemaId) (schemaVersionCollection s))), None))"

text \<open>
  A \<open>Find\<close> sorted by \<open>creation_date\<close> descending; among documents of equal date the
  store promises no order, and the model keeps them in insertion order.
\<close>

definition getSchemaVersionsBySchemaId :: "env \<Rightarrow> ObjectID \<Rightarrow> state \<Rightarrow> SchemaVersion list \<times> error option" where
  "getSchemaVersionsBySchemaId e schemaId s =
     (case fault e FindVersions of
        Some err \<Rightarrow> ([], Some err)
      | None \<Rightarrow>
          (case fault e CursorAllVersions of
             Some err \<Rightarrow> ([], Some err)
           | None \<Rightarrow>
               (sort_key (\<lambda>v. - SV_CreationDate v)
                  (filter (\<lambda>v. SV_SchemaId v = schemaId) (schemaVersionCollection s)), None)))"

definition getUsingStationsByName :: "env \<Rightarrow> string \<Rightarrow> state \<Rightarrow> string list \<times> error option" where
  "getUsingStationsByName e schemaName s =
     (case fault e AggregateStations of
        Some err \<Rightarrow> ([], Some err)
      | None \<Rightarrow>
          (case fault e CursorAllStations of
             Some err \<Rightarrow> ([], Some err)
           | None \<Rightarrow>
               (map Station_Name
                  (filter (\<lambda>st. Station_SchemaName st = Some schemaName \<and> \<not> Station_IsDeleted st)
                     (stationsCollection s)), None)))"

record ExtendedSchemaDetails =
  ESD_ID :: ObjectID
  ESD_SchemaName :: string
  ESD_Type :: string
  ESD_Versions :: "SchemaVersion list"
  ESD_UsedStations :: "string list"
  ESD_Tags :: "Tag list"

definition emptyExtendedSchemaDetails :: ExtendedSchemaDetails where
  "emptyExtendedSchemaDetails =
     \<lparr>ESD_ID = 0, ESD_SchemaName = [], ESD_Type = [], ESD_Versions = [],
      ESD_UsedStations = [], ESD_Tags = []\<rparr>"

definition getExtendedSchemaDetails :: "env \<Rightarrow> Schema \<Rightarrow> state \<Rightarrow> ExtendedSchemaDetails \<times> error option" where
  "getExtendedSchemaDetails e schema s =
     (case getSchemaVersionsBySchemaId e (Schema_ID schema) s of
        (_, Some err) \<Rightarrow> (emptyExtendedSchemaDetails, Some err)
      | (schemaVersions, None) \<Rightarrow>
          (case getUsingStationsByName e (Schema_Name schema) s of
             (_, Some err) \<Rightarrow> (emptyExtendedSchemaDetails, Some err)
           | (stations, None) \<Rightarrow>
               (case GetTagsBySchema e (Schema_ID schema) of
                  (_, Some err) \<Rightarrow> (emptyExtendedSchemaDetails, Some err)
                | (tags, None) \<Rightarrow>
                    (\<lparr>ESD_ID = Schema_ID schema, ESD_SchemaName = Schema_Name schema,
                      ESD_Type = Schema_Type schema, ESD_Versions = schemaVersions,
                      ESD_UsedStations = stations, ESD_Tags = tags\<rparr>, None))))"

text \<open>
  Modelled from the spec: \<open>AddTagsToEntity\<close> is defined outside the sources at hand; the
  spec says that the tags of the request are attached to the entity, a many-to-many
  mapping from tags to entities of a named kind.
\<close>

definition AddTagsToEntity :: "env \<Rightarrow> Tag list \<Rightarrow> string \<Rightarrow> ObjectID \<Rightarrow> state \<Rightarrow> error option \<times> state" where
  "AddTagsToEntity e tags kind entityId s =
     (case fault e InsertTags of
        Some err \<Rightarrow> (Some err, s)
      | None \<Rightarrow> (None, s\<lparr>tagsCollection := tagsCollection s @ map (\<lambda>t. (t, kind, entityId)) tags\<rparr>))"

subsection \<open>The HTTP handlers\<close>

text \<open>
  What a handler writes to the gin context: an abort with a status and a message, or a
  JSON body with status 200. When \<open>utils.Validate\<close> rejects the request it has written
  the answer itself and the handler returns at once.
\<close>

datatype json =
    JSchema Schema
  | JExtendedSchemaDetails ExtendedSchemaDetails
  | JIsValid bool

datatype response =
    AbortWithStatusJSON nat string
  | IndentedJSON nat json
  | AnsweredByValidate

record CreateNewSchema_body =
  CNS_Name :: string
  CNS_Type :: string
  CNS_SchemaContent :: string
  CNS_MessageStructName :: string
  CNS_Tags :: "Tag list"

definition CreateNewSchema :: "env \<Rightarrow> CreateNewSchema_body \<Rightarrow> state \<Rightarrow> response \<times> state" where
  "CreateNewSchema e body s =
     (if \<not> utils_Validate e then (AnsweredByValidate, s)
      else let schemaName = ToLower e (CNS_Name body) in
        (case validateSchemaName e schemaName of
          Some err \<Rightarrow> (AbortWithStatusJSON (SHOWABLE_ERROR_STATUS_CODE e) (Error_text err), s)
        | None \<Rightarrow>
        (case IsSchemaExist e schemaName of
          (_, _, Some err) \<Rightarrow> (AbortWithStatusJSON 500 ''Server Error'', s)
        | (exist, _, None) \<Rightarrow>
        if exist
          then (AbortWithStatusJSON (SHOWABLE_ERROR_STATUS_CODE e) ''Schema with that name already exists'', s)
        else
        (case getUserDetailsFromMiddleware e of
          (_, Some err) \<Rightarrow> (AbortWithStatusJSON 401 ''Unauthorized'', s)
        | (user, None) \<Rightarrow>
        let schemaType = ToLower e (CNS_Type body) in
        (case validateSchemaType schemaType of
          Some err \<Rightarrow> (AbortWithStatusJSON (SHOWABLE_ERROR_STATUS_CODE e) (Error_text err), s)
        | None \<Rightarrow>
        let messageStructName = CNS_MessageStructName body in
        (case (if schemaType = ''protobuf'' then validateMessageStructName messageStructName else None) of
          Some err \<Rightarrow> (AbortWithStatusJSON (SHOWABLE_ERROR_STATUS_CODE e) (Error_text err), s)
        | None \<Rightarrow>
        let schemaContent = CNS_SchemaContent body in
        (case validateSchemaContent e schemaContent schemaType of
          Some err \<Rightarrow> (AbortWithStatusJSON SCHEMA_VALIDATION_ERROR_STATUS_CODE (Error_text err), s)
        | None \<Rightarrow>
        let newSchema = \<lparr>Schema_ID = NewObjectID e 0, Schema_Name = schemaName, Schema_Type = schemaType\<rparr>;
            newSchemaVersion =
              \<lparr>SV_ID = NewObjectID e 1, SV_VersionNumber = 1, SV_Active = True,
               SV_CreatedByUser = User_Username user, SV_CreationDate = Now e 0,
               SV_SchemaContent = schemaContent, SV_SchemaId = Schema_ID newSchema,
               SV_MessageStructName = messageStructName\<rparr>
        in
        (case fault e UpsertSchema of
          Some err \<Rightarrow> (AbortWithStatusJSON 500 ''Server error'', s)
        | None \<Rightarrow>
        let (matchedCount, schemas') = upsertSchema newSchema (schemasCollection s);
            s1 = s\<lparr>schemasCollection := schemas'\<rparr>
        in
        if matchedCount = 0 then
          (case fault e InsertSchemaVersion of
             Some err \<Rightarrow> (AbortWithStatusJSON 500 ''Server error'', s1)
           | None \<Rightarrow>
             let s2 = s1\<lparr>schemaVersionCollection := schemaVersionCollection s1 @ [newSchemaVersion]\<rparr> in
             if length (CNS_Tags body) > 0 then
               (case AddTagsToEntity e (CNS_Tags body) ''schema'' (Schema_ID newSchema) s2 of
                  (Some err, s3) \<Rightarrow> (AbortWithStatusJSON 500 ''Server error'', s3)
                | (None, s3) \<Rightarrow> (IndentedJSON 200 (JSchema newSchema), s3))
             else (IndentedJSON 200 (JSchema newSchema), s2))
        else (AbortWithStatusJSON (SHOWABLE_ERROR_STATUS_CODE e) ''Schema with that name already exists'', s1)))))))))"

record ValidateSchema_body =
  VS_SchemaType :: string
  VS_SchemaContent :: string

definition ValidateSchema :: "env \<Rightarrow> ValidateSchema_body \<Rightarrow> state \<Rightarrow> response \<times> state" where
  "ValidateSchema e body s =
     (if \<not> utils_Validate e then (AnsweredByValidate, s)
      else let schemaType = ToLower e (VS_SchemaType body) in
        (case validateSchemaType schemaType of
          Some err \<Rightarrow> (AbortWithStatusJSON (SHOWABLE_ERROR_STATUS_CODE e) (Error_text err), s)
        | None \<Rightarrow>
        let schemaContent = VS_SchemaContent body in
        (case validateSchemaContent e schemaContent schemaType of
          Some err \<Rightarrow> (AbortWithStatusJSON SCHEMA_VALIDATION_ERROR_STATUS_CODE (Error_text err), s)
        | None \<Rightarrow> (IndentedJSON 200 (JIsValid True), s))))"

record CreateNewVersion_body =
  CNV_SchemaName :: string
  CNV_SchemaContent :: string
  CNV_MessageStructName :: string

definition CreateNewVersion :: "env \<Rightarrow> CreateNewVersion_body \<Rightarrow> state \<Rightarrow> response \<times> state" where
  "CreateNewVersion e body s =
     (if \<not> utils_Validate e then (AnsweredByValidate, s)
      else let schemaName = ToLower e (CNV_SchemaName body) in
        (case IsSchemaExist e schemaName of
          (_, _, Some err) \<Rightarrow> (AbortWithStatusJSON 500 ''Server Error'', s)
        | (exist, schema, None) \<Rightarrow>
        if \<not> exist
          then (AbortWithStatusJSON (SHOWABLE_ERROR_STATUS_CODE e) ''Schema does not exist'', s)
        else
        (case getUserDetailsFromMiddleware e of
          (_, Some err) \<Rightarrow> (AbortWithStatusJSON 401 ''Unauthorized'', s)
        | (user, None) \<Rightarrow>
        let messageStructName = CNV_MessageStructName body in
        (case (if Schema_Type schema = ''protobuf'' then validateMessageStructName messageStructName else None) of
          Some err \<Rightarrow> (AbortWithStatusJSON (SHOWABLE_ERROR_STATUS_CODE e) (Error_text err), s)
        | None \<Rightarrow>
        let schemaContent = CNV_SchemaContent body in
        (case validateSchemaContent e schemaContent (Schema_Type schema) of
          Some err \<Rightarrow> (AbortWithStatusJSON SCHEMA_VALIDATION_ERROR_STATUS_CODE (Error_text err), s)
        | None \<Rightarrow>
        (case getVersionsCount e (Schema_ID schema) s of
          (_, Some err) \<Rightarrow> (AbortWithStatusJSON 500 ''Server error'', s)
        | (countVersions, None) \<Rightarrow>
        let versionNumber = countVersions + 1;
            newSchemaVersion =
              \<lparr>SV_ID = NewObjectID e 0, SV_VersionNumber = versionNumber, SV_Active = False,
               SV_CreatedByUser = User_Username user, SV_CreationDate = Now e 0,
               SV_SchemaContent = schemaContent, SV_SchemaId = Schema_ID schema,
               SV_MessageStructName = messageStructName\<rparr>
        in
        (case fault e UpsertSchemaVersion of
          Some err \<Rightarrow> (AbortWithStatusJSON 500 ''Server error'', s)
        | None \<Rightarrow>
        let (matchedCount, versions') = upsertSchemaVersion newSchemaVersion (schemaVersionCollection s);
            s1 = s\<lparr>schemaVersionCollection := versions'\<rparr>
        in
        if matchedCount = 0 then
          (case getExtendedSchemaDetails e schema s1 of
             (_, Some err) \<Rightarrow> (AbortWithStatusJSON 500 ''Server error'', s1)
           | (extedndedSchemaDetails, None) \<Rightarrow>
               (IndentedJSON 200 (JExtendedSchemaDetails extedndedSchemaDetails), s1))
        else (AbortWithStatusJSON (SHOWABLE_ERROR_STATUS_CODE e) ''Version already exists'', s1))))))))"

record RollBackVersion_body =
  RBV_SchemaName :: string
  RBV_VersionNumber :: int

definition RollBackVersion :: "env \<Rightarrow> RollBackVersion_body \<Rightarrow> state \<Rightarrow> response \<times> state" where
  "RollBackVersion e body s =
     (if \<not> utils_Validate e then (AnsweredByValidate, s)
      else let schemaName = ToLower e (RBV_SchemaName body) in
        (case IsSchemaExist e schemaName of
          (_, _, Some err) \<Rightarrow> (AbortWithStatusJSON 500 ''Server Error'', s)
        | (exist, schema, None) \<Rightarrow>
        if \<not> exist
          then (AbortWithStatusJSON (SHOWABLE_ERROR_STATUS_CODE e) ''Schema does not exist'', s)
        else
        let schemaVersion = RBV_VersionNumber body in
        (case isSchemaVersionExists e schemaVersion (Schema_ID schema) of
          (_, _, Some err) \<Rightarrow> (AbortWithStatusJSON 500 ''Server error'', s)
        | (exist, _, None) \<Rightarrow>
        if \<not> exist
          then (AbortWithStatusJSON (SHOWABLE_ERROR_STATUS_CODE e) ''Schema version does not exist'', s)
        else
        (case getVersionsCount e (Schema_ID schema) s of
          (_, Some err) \<Rightarrow> (AbortWithStatusJSON 500 ''Server error'', s)
        | (countVersions, None) \<Rightarrow>
        (case (if countVersions > 1
                 then updateActiveVersion e (Schema_ID schema) (RBV_VersionNumber body) s
               else (None, s)) of
          (Some err, s1) \<Rightarrow> (AbortWithStatusJSON 500 (Error_text err), s1)
        | (None, s1) \<Rightarrow>
        (case getExtendedSchemaDetails e schema s1 of
           (_, Some err) \<Rightarrow> (AbortWithStatusJSON 500 ''Server error'', s1)
         | (extedndedSchemaDetails, None) \<Rightarrow>
             (IndentedJSON 200 (JExtendedSchemaDetails extedndedSchemaDetails), s1)))))))"

section \<open>Producers\<close>

subsection \<open>Validators\<close>

text \<open>
  The regular expression \<open>^[a-z0-9_]*$\<close> is matched without the multi-line flag, so it
  accepts exactly the strings all of whose bytes are lower-case letters, digits or \<open>_\<close>.
\<close>

definition matchesNameRegexp :: "string \<Rightarrow> bool" where
  "matchesNameRegexp name = list_all (\<lambda>c. c \<in> set ''abcdefghijklmnopqrstuvwxyz0123456789_'') name"

definition validateProducerName :: "string \<Rightarrow> error option" where
  "validateProducerName name =
     (if length name = 0 then Some (Error ''Producer name can not be empty'')
      else if length name > 32 then Some (Error ''Producer name should be under 32 characters'')
      else if \<not> matchesNameRegexp name then Some (Error ''Producer name has to include only letters and _'')
      else None)"

definition validateProducerType :: "string \<Rightarrow> error option" where
  "validateProducerType producerType =
     (if producerType \<noteq> ''application'' \<and> producerType \<noteq> ''connector''
        then Some (Error ''Producer type has to be one of the following application/connector'')
      else None)"

subsection \<open>Helpers that write\<close>

text \<open>
  Modelled from the spec: \<open>CreateAuditLogs\<close> is defined outside the sources at hand; the
  spec describes the audit log as an append-only record of administrative events.
\<close>

definition CreateAuditLogs :: "env \<Rightarrow> AuditLog list \<Rightarrow> state \<Rightarrow> error option \<times> state" where
  "CreateAuditLogs e auditLogs s =
     (case fault e InsertAuditLogs of
        Some err \<Rightarrow> (Some err, s)
      | None \<Rightarrow> (None, s\<lparr>auditLogsCollection := auditLogsCollection s @ auditLogs\<rparr>))"

text \<open>
  Modelled from the spec: \<open>CreateDefaultStation\<close> is defined outside the sources at hand;
  the spec says that a missing station is created on demand from the process-wide default
  configuration, with \<open>created_by_user\<close> copied from the resolving connection.
\<close>

definition CreateDefaultStation :: "env \<Rightarrow> string \<Rightarrow> string \<Rightarrow> state \<Rightarrow> (Station \<times> error option) \<times> state" where
  "CreateDefaultStation e stationName username s =
     (let newStation =
            \<lparr>Station_ID = NewObjectID e 3, Station_Name = stationName,
             Station_FactoryId = DefaultStationFactoryId e, Station_CreatedByUser = username,
             Station_IsDeleted = False, Station_SchemaName = None\<rparr>
      in (case fault e InsertStation of
           Some err \<Rightarrow> ((newStation, Some err), s)
         | None \<Rightarrow> ((newStation, None), s\<lparr>stationsCollection := stationsCollection s @ [newStation]\<rparr>)))"

definition IncrementStationsCounter :: "state \<Rightarrow> state" where
  "IncrementStationsCounter s = s\<lparr>stationsCounter := Suc (stationsCounter s)\<rparr>"

definition IncrementProducersCounter :: "state \<Rightarrow> state" where
  "IncrementProducersCounter s = s\<lparr>producersCounter := Suc (producersCounter s)\<rparr>"

subsection \<open>Creating and destroying over the transport\<close>

record createProducerRequest =
  CPR_Name :: string
  CPR_StationName :: string
  CPR_ConnectionId :: string
  CPR_ProducerType :: string

record destroyProducerRequest =
  DPR_StationName :: string
  DPR_ProducerName :: string

record client =
  memphisInfo_username :: string

text \<open>
  The part of \<open>createProducerDirect\<close> that runs when the station does not exist yet: the
  station is created, an audit record is written (a failure of that write is only
  logged) and the analytics counter is incremented when analytics is on.
\<close>

definition autoCreateStation :: "env \<Rightarrow> client \<Rightarrow> string \<Rightarrow> Connection \<Rightarrow> state \<Rightarrow> (Station \<times> error option) \<times> state" where
  "autoCreateStation e c stationName connection s =
     (case CreateDefaultStation e stationName (Connection_CreatedByUser connection) s of
        ((station, Some err), s1) \<Rightarrow> ((station, Some err), s1)
      | ((station, None), s1) \<Rightarrow>
          (let message = ''Station '' @ stationName @ '' has been created'';
               newAuditLog =
                 \<lparr>AuditLog_ID = NewObjectID e 0, AuditLog_StationName = stationName,
                  AuditLog_Message = message, AuditLog_CreatedByUser = memphisInfo_username c,
                  AuditLog_CreationDate = Now e 0, AuditLog_UserType = ''application''\<rparr>;
               s2 = snd (CreateAuditLogs e [newAuditLog] s1);
               s3 = (if shouldSendAnalytics e then IncrementStationsCounter s2 else s2)
           in ((station, None), s3)))"

definition createProducerDirect :: "env \<Rightarrow> createProducerRequest \<Rightarrow> client \<Rightarrow> state \<Rightarrow> error option \<times> state" where
  "createProducerDirect e cpr c s =
     (let name = ToLower e (CPR_Name cpr) in
      (case validateProducerName name of
        Some err \<Rightarrow> (Some err, s)
      | None \<Rightarrow>
      let producerType = ToLower e (CPR_ProducerType cpr) in
      (case validateProducerType producerType of
        Some err \<Rightarrow> (Some err, s)
      | None \<Rightarrow>
      (case ObjectIDFromHex e (CPR_ConnectionId cpr) of
        (_, Some err) \<Rightarrow> (Some err, s)
      | (connectionIdObj, None) \<Rightarrow>
      (case IsConnectionExist e connectionIdObj of
        (_, _, Some err) \<Rightarrow> (Some err, s)
      | (exist, connection, None) \<Rightarrow>
      if \<not> exist then (Some (Error ''memphis: connection id was not found''), s)
      else if \<not> Connection_IsActive connection then (Some (Error ''memphis: connection id is not active''), s)
      else
      let stationName = ToLower e (CPR_StationName cpr) in
      (case IsStationExist e stationName of
        (_, _, Some err) \<Rightarrow> (Some err, s)
      | (exist, station0, None) \<Rightarrow>
      (case (if \<not> exist then autoCreateStation e c stationName connection s
             else ((station0, None), s)) of
        ((_, Some err), s1) \<Rightarrow> (Some err, s1)
      | ((station, None), s1) \<Rightarrow>
      (case IsProducerExist e name (Station_ID station) of
        (_, _, Some err) \<Rightarrow> (Some err, s1)
      | (exist, _, None) \<Rightarrow>
      if exist then (Some (Error ''memphis: producer name has to be unique per station''), s1)
      else
      let producerId = NewObjectID e 1;
          newProducer =
            \<lparr>Producer_ID = producerId, Producer_Name = name, Producer_StationId = Station_ID station,
             Producer_FactoryId = Station_FactoryId station, Producer_Type = producerType,
             Producer_ConnectionId = connectionIdObj,
             Producer_CreatedByUser = Connection_CreatedByUser connection,
             Producer_IsActive = True, Producer_CreationDate = Now e 1, Producer_IsDeleted = False\<rparr>
      in
      (case fault e InsertProducer of
        Some err \<Rightarrow> (Some err, s1)
      | None \<Rightarrow>
      let s2 = s1\<lparr>producersCollection := producersCollection s1 @ [newProducer]\<rparr>;
          message = ''Producer '' @ name @ '' has been created'';
          newAuditLog =
            \<lparr>AuditLog_ID = NewObjectID e 2, AuditLog_StationName = stationName,
             AuditLog_Message = message, AuditLog_CreatedByUser = memphisInfo_username c,
             AuditLog_CreationDate = Now e 2, AuditLog_UserType = ''application''\<rparr>;
          s3 = snd (CreateAuditLogs e [newAuditLog] s2);
          s4 = (if shouldSendAnalytics e then IncrementProducersCounter s3 else s3)
      in (None, s4))))))))))"

text \<open>
  \<open>FindOneAndUpdate\<close> changes the first document that matches the filter and fails with
  the sentinel \<open>ErrNoDocuments\<close> when none does.
\<close>

definition destroyFilter :: "string \<Rightarrow> ObjectID \<Rightarrow> Producer \<Rightarrow> bool" where
  "destroyFilter name stationId p =
     (Producer_Name p = name \<and> Producer_StationId p = stationId \<and> Producer_IsActive p)"

definition FindOneAndUpdate_destroy :: "env \<Rightarrow> string \<Rightarrow> ObjectID \<Rightarrow> state \<Rightarrow> error option \<times> state" where
  "FindOneAndUpdate_destroy e name stationId s =
     (case fault e FindOneAndUpdateProducer of
        Some err \<Rightarrow> (Some err, s)
      | None \<Rightarrow>
          if list_ex (destroyFilter name stationId) (producersCollection s)
            then (None, s\<lparr>producersCollection :=
                             updateOne (destroyFilter name stationId)
                               (\<lambda>p. p\<lparr>Producer_IsActive := False, Producer_IsDeleted := True\<rparr>)
                               (producersCollection s)\<rparr>)
          else (Some ErrNoDocuments, s))"

definition destroyProducerDirect :: "env \<Rightarrow> destroyProducerRequest \<Rightarrow> client \<Rightarrow> state \<Rightarrow> error option \<times> state" where
  "destroyProducerDirect e dpr c s =
     (let stationName = ToLower e (DPR_StationName dpr);
          name = ToLower e (DPR_ProducerName dpr)
      in (case IsStationExist e stationName of
        (_, _, Some err) \<Rightarrow> (Some err, s)
      | (_, station, None) \<Rightarrow>
      (case FindOneAndUpdate_destroy e name (Station_ID station) s of
        (Some err, s1) \<Rightarrow>
          if err = ErrNoDocuments then (Some (Error ''Producer does not exist''), s1)
          else (Some err, s1)
      | (None, s1) \<Rightarrow>
      let message = ''Producer '' @ name @ '' has been deleted'';
          newAuditLog =
            \<lparr>AuditLog_ID = NewObjectID e 0, AuditLog_StationName = stationName,
             AuditLog_Message = message, AuditLog_CreatedByUser = memphisInfo_username c,
             AuditLog_CreationDate = Now e 0, AuditLog_UserType = ''application''\<rparr>
      in (None, snd (CreateAuditLogs e [newAuditLog] s1)))))"

subsection \<open>Liveness driven by the connection\<close>

text \<open>
  A call either returns or panics. In \<open>KillProducers\<close> a failing \<open>Find\<close> is only logged
  and leaves a nil cursor, on which \<open>cursor.All\<close> dereferences nil. A failing
  \<open>cursor.All\<close> is only logged too and leaves the slice empty, and a failing lookup of the
  station leaves the zero station.
\<close>

datatype 'a outcome = Panic | Return 'a

definition zeroStation :: Station where
  "zeroStation =
     \<lparr>Station_ID = 0, Station_Name = [], Station_FactoryId = 0, Station_CreatedByUser = [],
      Station_IsDeleted = False, Station_SchemaName = None\<rparr>"

definition killAuditLogs :: "env \<Rightarrow> Station \<Rightarrow> Producer list \<Rightarrow> AuditLog list" where
  "killAuditLogs e station producers =
     (let userType = (if Producer_CreatedByUser (hd producers) = ''root'' then ''root'' else ''application'')
      in map (\<lambda>(i, producer).
                \<lparr>AuditLog_ID = NewObjectID e i, AuditLog_StationName = Station_Name station,
                 AuditLog_Message = ''Producer '' @ Producer_Name producer @ '' has been disconnected'',
                 AuditLog_CreatedByUser = Producer_CreatedByUser (hd producers),
                 AuditLog_CreationDate = Now e i, AuditLog_UserType = userType\<rparr>)
           (enumerate 0 producers))"

definition KillProducers :: "env \<Rightarrow> ObjectID \<Rightarrow> state \<Rightarrow> error option outcome \<times> state" where
  "KillProducers e connectionId s =
     (case fault e FindProducers of
        Some err \<Rightarrow> (Panic, s)
      | None \<Rightarrow>
      let producers =
            (case fault e CursorAllProducers of
               Some err \<Rightarrow> []
             | None \<Rightarrow> filter (\<lambda>p. Producer_ConnectionId p = connectionId \<and> Producer_IsActive p)
                         (producersCollection s))
      in
      if length producers > 0 then
        let station =
              (case fault e FindOneStation of
                 Some err \<Rightarrow> zeroStation
               | None \<Rightarrow>
                   (case find (\<lambda>st. Station_ID st = Producer_StationId (hd producers)) (stationsCollection s) of
                      Some st \<Rightarrow> st
                    | None \<Rightarrow> zeroStation))
        in
        (case fault e UpdateManyKill of
          Some err \<Rightarrow> (Return (Some err), s)
        | None \<Rightarrow>
        let s1 = s\<lparr>producersCollection :=
                     updateMany (\<lambda>p. Producer_ConnectionId p = connectionId)
                       (\<lambda>p. p\<lparr>Producer_IsActive := False\<rparr>) (producersCollection s)\<rparr>
        in (Return None, snd (CreateAuditLogs e (killAuditLogs e station producers) s1)))
      else (Return None, s))"

definition ReliveProducers :: "env \<Rightarrow> ObjectID \<Rightarrow> state \<Rightarrow> error option \<times> state" where
  "ReliveProducers e connectionId s =
     (case fault e UpdateManyRelive of
        Some err \<Rightarrow> (Some err, s)
      | None \<Rightarrow>
          (None, s\<lparr>producersCollection :=
                     updateMany (\<lambda>p. Producer_ConnectionId p = connectionId \<and> \<not> Producer_IsDeleted p)
                       (\<lambda>p. p\<lparr>Producer_IsActive := True\<rparr>) (producersCollection s)\<rparr>))"

subsection \<open>The producers of a station, for the overview\<close>

record ExtendedProducer =
  EP_ID :: ObjectID
  EP_Name :: string
  EP_Type :: string
  EP_ConnectionId :: ObjectID
  EP_CreatedByUser :: string
  EP_CreationDate :: Time
  EP_IsActive :: bool
  EP_IsDeleted :: bool
  EP_StationName :: string
  EP_FactoryName :: string
  EP_ClientAddress :: string

text \<open>
  The aggregation pipeline keeps the producers of the station, sorts them by
  \<open>creation_date\<close> descending (documents of equal date stay in insertion order here; the
  store promises no order among them) and joins the names of the station and of the
  factory and the address of the connection. The store keeps \<open>_id\<close> unique within a
  collection, so every \<open>$lookup\<close> finds at most one document, and \<open>$unwind\<close> with
  \<open>preserveNullAndEmptyArrays\<close> keeps exactly one row for each producer; a field that was
  not found decodes to the empty string.
\<close>

definition extendProducer :: "state \<Rightarrow> Producer \<Rightarrow> ExtendedProducer" where
  "extendProducer s p =
     \<lparr>EP_ID = Producer_ID p, EP_Name = Producer_Name p, EP_Type = Producer_Type p,
      EP_ConnectionId = Producer_ConnectionId p, EP_CreatedByUser = Producer_CreatedByUser p,
      EP_CreationDate = Producer_CreationDate p, EP_IsActive = Producer_IsActive p,
      EP_IsDeleted = Producer_IsDeleted p,
      EP_StationName =
        (case find (\<lambda>st. Station_ID st = Producer_StationId p) (stationsCollection s) of
           Some st \<Rightarrow> Station_Name st | None \<Rightarrow> []),
      EP_FactoryName =
        (case find (\<lambda>f. Factory_ID f = Producer_FactoryId p) (factoriesCollection s) of
           Some f \<Rightarrow> Factory_Name f | None \<Rightarrow> []),
      EP_ClientAddress =
        (case find (\<lambda>c. Connection_ID c = Producer_ConnectionId p) (connectionsCollection s) of
           Some c \<Rightarrow> Connection_ClientAddress c | None \<Rightarrow> [])\<rparr>"

definition aggregateProducersByStation :: "Station \<Rightarrow> state \<Rightarrow> ExtendedProducer list" where
  "aggregateProducersByStation station s =
     map (extendProducer s)
       (sort_key (\<lambda>p. - Producer_CreationDate p)
          (filter (\<lambda>p. Producer_StationId p = Station_ID station) (producersCollection s)))"

text \<open>
  The loop over the rows, with its four slices: the names seen so far and the three
  partitions.
\<close>

fun partitionProducers ::
  "ExtendedProducer list \<Rightarrow> string list \<Rightarrow> ExtendedProducer list \<Rightarrow> ExtendedProducer list \<Rightarrow>
   ExtendedProducer list \<Rightarrow> ExtendedProducer list \<times> ExtendedProducer list \<times> ExtendedProducer list" where
  "partitionProducers [] producersNames connectedProducers disconnectedProducers deletedProducers =
     (connectedProducers, disconnectedProducers, deletedProducers)"
| "partitionProducers (producer # rest) producersNames connectedProducers disconnectedProducers deletedProducers =
     (if EP_Name producer \<in> set producersNames
        then partitionProducers rest producersNames connectedProducers disconnectedProducers deletedProducers
      else if EP_IsActive producer
        then partitionProducers rest (producersNames @ [EP_Name producer])
               (connectedProducers @ [producer]) disconnectedProducers deletedProducers
      else if \<not> EP_IsDeleted producer \<and> \<not> EP_IsActive producer
        then partitionProducers rest (producersNames @ [EP_Name producer])
               connectedProducers (disconnectedProducers @ [producer]) deletedProducers
      else if EP_IsDeleted producer
        then partitionProducers rest (producersNames @ [EP_Name producer])
               connectedProducers disconnectedProducers (deletedProducers @ [producer])
      else partitionProducers rest (producersNames @ [EP_Name producer])
             connectedProducers disconnectedProducers deletedProducers)"

text \<open>
  \<open>sort.Slice\<close> with the comparison "the date of j is before the date of i" sorts by
  \<open>creation_date\<close> descending; it promises no order among rows of equal date, which the
  model keeps as they were. When the aggregation or the decoding of its cursor fails,
  \<open>GetProducersByStation\<close> returns the slice of rows three times with the error; that
  slice is taken to be empty.
\<close>

definition sortSlice :: "ExtendedProducer list \<Rightarrow> ExtendedProducer list" where
  "sortSlice producers = sort_key (\<lambda>p. - EP_CreationDate p) producers"

definition GetProducersByStation ::
  "env \<Rightarrow> Station \<Rightarrow> state \<Rightarrow>
   ExtendedProducer list \<times> ExtendedProducer list \<times> ExtendedProducer list \<times> error option" where
  "GetProducersByStation e station s =
     (case fault e AggregateProducers of
        Some err \<Rightarrow> ([], [], [], Some err)
      | None \<Rightarrow>
          (case fault e CursorAllAggregate of
             Some err \<Rightarrow> ([], [], [], Some err)
           | None \<Rightarrow>
               (case partitionProducers (aggregateProducersByStation station s) [] [] [] [] of
                  (connectedProducers, disconnectedProducers, deletedProducers) \<Rightarrow>
                    (sortSlice connectedProducers, sortSlice disconnectedProducers,
                     sortSlice deletedProducers, None))))"

section \<open>The station overview of the socket layer\<close>


record 'c stationOverviewData =
  SOD_Producers :: "ExtendedProducer list"
  SOD_Consumers :: "'c list"
  SOD_TotalMessages :: int
  SOD_AvgMsgSize :: int
  SOD_AuditLogs :: "AuditLog list"



text \<open>
  The socket of a subscriber: the rooms it has joined, the frames emitted to it and the
  lines written to the error log on its behalf. The handler of the event
  \<open>register_station_overview_data\<close> leaves all rooms, computes the snapshot and, unless
  an error came back, emits it and joins the room of the station.
\<close>

record 'c conn =
  conn_rooms :: "string list"
  conn_emitted :: "(string \<times> 'c stationOverviewData) list"
  conn_logged :: "string list"


section \<open>Runs of the producer operations\<close>

text \<open>
  The four operations that write producer rows, each with the environment of its run, and
  the state after a sequence of them. A panic of \<open>KillProducers\<close> happens before any
  write, so the state it leaves is the state it found.
\<close>

datatype producer_op =
    CreateProducer env createProducerRequest client
  | DestroyProducer env destroyProducerRequest client
  | Kill env ObjectID
  | Relive env ObjectID

fun apply_op :: "state \<Rightarrow> producer_op \<Rightarrow> state" where
  "apply_op s (CreateProducer e cpr c) = snd (createProducerDirect e cpr c s)"
| "apply_op s (DestroyProducer e dpr c) = snd (destroyProducerDirect e dpr c s)"
| "apply_op s (Kill e connectionId) = snd (KillProducers e connectionId s)"
| "apply_op s (Relive e connectionId) = snd (ReliveProducers e connectionId s)"

definition run_ops :: "state \<Rightarrow> producer_op list \<Rightarrow> state" where
  "run_ops s ops = foldl apply_op s ops"

definition deleted_implies_inactive :: "state \<Rightarrow> bool" where
  "deleted_implies_inactive s =
     list_all (\<lambda>R. Producer_IsDeleted R \<longrightarrow> \<not> Producer_IsActive R) (producersCollection s)"

section \<open>Concrete values\<close>

text \<open>
  An empty store, and an environment in which every call succeeds: no schema, station or
  producer is found by the lookups, the connection 7 is active, and the parser accepts
  the one-message file.
\<close>

definition emptyState :: state where
  "emptyState =
     \<lparr>schemasCollection = [], schemaVersionCollection = [], stationsCollection = [],
      factoriesCollection = [], connectionsCollection = [], producersCollection = [],
      auditLogsCollection = [], tagsCollection = [], stationsCounter = 0, producersCounter = 0\<rparr>"

definition zeroSchema :: Schema where
  "zeroSchema = \<lparr>Schema_ID = 0, Schema_Name = [], Schema_Type = []\<rparr>"

definition zeroSchemaVersion :: SchemaVersion where
  "zeroSchemaVersion =
     \<lparr>SV_ID = 0, SV_VersionNumber = 0, SV_Active = False, SV_CreatedByUser = [],
      SV_CreationDate = 0, SV_SchemaContent = [], SV_SchemaId = 0, SV_MessageStructName = []\<rparr>"

definition zeroProducer :: Producer where
  "zeroProducer =
     \<lparr>Producer_ID = 0, Producer_Name = [], Producer_StationId = 0, Producer_FactoryId = 0,
      Producer_Type = [], Producer_ConnectionId = 0, Producer_CreatedByUser = [],
      Producer_IsActive = False, Producer_CreationDate = 0, Producer_IsDeleted = False\<rparr>"

definition connection7 :: Connection where
  "connection7 =
     \<lparr>Connection_ID = 7, Connection_ClientAddress = ''10.0.0.7'',
      Connection_CreatedByUser = ''root'', Connection_IsActive = True\<rparr>"

definition station5 :: Station where
  "station5 =
     \<lparr>Station_ID = 5, Station_Name = ''orders'', Station_FactoryId = 2,
      Station_CreatedByUser = ''root'', Station_IsDeleted = False, Station_SchemaName = None\<rparr>"

definition quietEnv :: env where
  "quietEnv =
     \<lparr>SHOWABLE_ERROR_STATUS_CODE = 666,
      NewObjectID = (\<lambda>k. 100 + k),
      Now = (\<lambda>k. 1000 + int k),
      fault = (\<lambda>call. None),
      utils_Validate = True,
      unicode_ToLower = (\<lambda>s. s),
      protoparse_ParseFiles = (\<lambda>content. if content = ''message M {}'' then None else Some ''syntax error''),
      validateName = (\<lambda>name objectName. None),
      IsSchemaExist = (\<lambda>name. (False, zeroSchema, None)),
      isSchemaVersionExists = (\<lambda>n schemaId. (False, zeroSchemaVersion, None)),
      getUserDetailsFromMiddleware = (\<lparr>User_Username = ''root''\<rparr>, None),
      GetTagsBySchema = (\<lambda>schemaId. ([], None)),
      ObjectIDFromHex = (\<lambda>hex. (7, None)),
      IsConnectionExist = (\<lambda>connectionId. (True, connection7, None)),
      IsStationExist = (\<lambda>name. (True, station5, None)),
      IsProducerExist = (\<lambda>name stationId. (False, zeroProducer, None)),
      DefaultStationFactoryId = 2,
      shouldSendAnalytics = False\<rparr>"




text \<open>
  Requests of the client \<open>root\<close> for the producer \<open>p1\<close> on the station \<open>orders\<close>, and
  a store with three producer rows of station 5: \<open>p1\<close> connected and \<open>p2\<close> deleted on
  the connection 7, \<open>p3\<close> connected on the connection 8.
\<close>

definition request_p1 :: createProducerRequest where
  "request_p1 =
     \<lparr>CPR_Name = ''P1'', CPR_StationName = ''orders'', CPR_ConnectionId = ''07'',
      CPR_ProducerType = ''application''\<rparr>"

definition destroy_p1 :: destroyProducerRequest where
  "destroy_p1 = \<lparr>DPR_StationName = ''orders'', DPR_ProducerName = ''p1''\<rparr>"

definition rootClient :: client where
  "rootClient = \<lparr>memphisInfo_username = ''root''\<rparr>"

definition producer_p1 :: Producer where
  "producer_p1 =
     \<lparr>Producer_ID = 101, Producer_Name = ''p1'', Producer_StationId = 5,
      Producer_FactoryId = 2, Producer_Type = ''application'',
      Producer_ConnectionId = 7, Producer_CreatedByUser = ''root'',
      Producer_IsActive = True, Producer_CreationDate = 1001,
      Producer_IsDeleted = False\<rparr>"

definition producer_p2 :: Producer where
  "producer_p2 =
     \<lparr>Producer_ID = 102, Producer_Name = ''p2'', Producer_StationId = 5,
      Producer_FactoryId = 2, Producer_Type = ''application'',
      Producer_ConnectionId = 7, Producer_CreatedByUser = ''root'',
      Producer_IsActive = False, Producer_CreationDate = 1002,
      Producer_IsDeleted = True\<rparr>"

definition producer_p3 :: Producer where
  "producer_p3 =
     \<lparr>Producer_ID = 103, Producer_Name = ''p3'', Producer_StationId = 5,
      Producer_FactoryId = 2, Producer_Type = ''connector'',
      Producer_ConnectionId = 8, Producer_CreatedByUser = ''root'',
      Producer_IsActive = True, Producer_CreationDate = 1003,
      Producer_IsDeleted = False\<rparr>"

definition stateWithProducers :: state where
  "stateWithProducers = emptyState\<lparr>producersCollection := [producer_p1, producer_p2, producer_p3]\<rparr>"

text \<open>
  The schema \<open>orders\<close> with its first version, with a second one, and with a second
  one only; an environment whose lookups find the schema and its versions 1 and 2; and
  the requests used below.
\<close>

definition schema_orders :: Schema where
  "schema_orders = \<lparr>Schema_ID = 100, Schema_Name = ''orders'', Schema_Type = ''protobuf''\<rparr>"

definition version1 :: SchemaVersion where
  "version1 =
     \<lparr>SV_ID = 101, SV_VersionNumber = 1, SV_Active = True, SV_CreatedByUser = ''root'',
      SV_CreationDate = 1000, SV_SchemaContent = ''message M {}'', SV_SchemaId = 100,
      SV_MessageStructName = ''M''\<rparr>"

definition version2 :: SchemaVersion where
  "version2 =
     \<lparr>SV_ID = 200, SV_VersionNumber = 2, SV_Active = False, SV_CreatedByUser = ''root'',
      SV_CreationDate = 2000, SV_SchemaContent = ''message M {}'', SV_SchemaId = 100,
      SV_MessageStructName = ''M''\<rparr>"

definition stateWithSchema :: state where
  "stateWithSchema =
     emptyState\<lparr>schemasCollection := [schema_orders], schemaVersionCollection := [version1]\<rparr>"

definition stateWithGap :: state where
  "stateWithGap =
     emptyState\<lparr>schemasCollection := [schema_orders], schemaVersionCollection := [version2]\<rparr>"

definition stateWithTwoVersions :: state where
  "stateWithTwoVersions =
     emptyState\<lparr>schemasCollection := [schema_orders], schemaVersionCollection := [version1, version2]\<rparr>"

definition foundEnv :: env where
  "foundEnv =
     quietEnv\<lparr>NewObjectID := (\<lambda>k. 200 + k), Now := (\<lambda>k. 2000 + int k),
              IsSchemaExist := (\<lambda>name. (True, schema_orders, None)),
              isSchemaVersionExists := (\<lambda>n schemaId. (n = 1 \<or> n = 2, zeroSchemaVersion, None))\<rparr>"


definition version_body :: CreateNewVersion_body where
  "version_body =
     \<lparr>CNV_SchemaName = ''Orders'', CNV_SchemaContent = ''message M {}'',
      CNV_MessageStructName = ''M''\<rparr>"

definition rollback_body :: RollBackVersion_body where
  "rollback_body = \<lparr>RBV_SchemaName = ''Orders'', RBV_VersionNumber = 2\<rparr>"

definition rollback_first :: RollBackVersion_body where
  "rollback_first = \<lparr>RBV_SchemaName = ''Orders'', RBV_VersionNumber = 1\<rparr>"

definition rollback_missing :: RollBackVersion_body where
  "rollback_missing = \<lparr>RBV_SchemaName = ''Orders'', RBV_VersionNumber = 3\<rparr>"

text \<open>
  The store after \<open>p1\<close> was created, destroyed and created again: the older row of
  that name is deleted, the newer one is connected.
\<close>

definition old_p1 :: Producer where
  "old_p1 =
     producer_p1\<lparr>Producer_ID := 90, Producer_IsActive := False, Producer_CreationDate := 900,
                  Producer_IsDeleted := True\<rparr>"

definition stateWithHistory :: state where
  "stateWithHistory =
     emptyState\<lparr>stationsCollection := [station5],
                 producersCollection := [old_p1, producer_p1, producer_p2, producer_p3]\<rparr>"

section \<open>Properties of the schema handlers\<close>

lemmas env_simps =
  ToLower_def isASCII_def lowerByte_def validateSchemaType_def validateSchemaContent_def
  validateProtobufContent_def validateSchemaName_def validateMessageStructName_def
  Error_text_def SCHEMA_VALIDATION_ERROR_STATUS_CODE_def

text \<open>
  C8, as the spec words it, fails: \<open>ValidateSchema\<close> never looks at a message struct
  name. A protobuf request with valid content and an empty message struct name is
  answered \<open>is_valid: true\<close>, while \<open>CreateNewSchema\<close> rejects the same type, content and
  message struct name.
\<close>

theorem ValidateSchema_ignores_message_struct_name:
  "fst (ValidateSchema quietEnv \<lparr>VS_SchemaType = ''protobuf'', VS_SchemaContent = ''message M {}''\<rparr> emptyState)
     = IndentedJSON 200 (JIsValid True)
   \<and> fst (CreateNewSchema quietEnv
            \<lparr>CNS_Name = ''orders'', CNS_Type = ''protobuf'', CNS_SchemaContent = ''message M {}'',
             CNS_MessageStructName = '''', CNS_Tags = []\<rparr> emptyState)
     = AbortWithStatusJSON 666 ''Message struct name is required when schema type is Protobuf''"
  by (simp add: ValidateSchema_def CreateNewSchema_def quietEnv_def env_simps)

text \<open>
  C8, amended: \<open>ValidateSchema\<close> applies the schema-type rule and then the
  schema-content rule, on the lower-cased type, and writes nothing. It answers
  \<open>is_valid: true\<close> exactly when both rules pass, and otherwise with the status and the
  message of the first rule that fails. For a request that \<open>CreateNewSchema\<close> does not turn
  down for its name, an existing schema, the user or an empty message struct name,
  \<open>CreateNewSchema\<close> gives the very answer of \<open>ValidateSchema\<close> whenever that answer is a
  rejection.
\<close>

theorem ValidateSchema_type_and_content_rules:
  assumes "utils_Validate e"
  shows "snd (ValidateSchema e \<lparr>VS_SchemaType = ty, VS_SchemaContent = content\<rparr> s) = s
    \<and> (fst (ValidateSchema e \<lparr>VS_SchemaType = ty, VS_SchemaContent = content\<rparr> s) = IndentedJSON 200 (JIsValid True)
         \<longleftrightarrow> validateSchemaType (ToLower e ty) = None
             \<and> validateSchemaContent e content (ToLower e ty) = None)
    \<and> (\<forall>err. validateSchemaType (ToLower e ty) = Some err \<longrightarrow>
          fst (ValidateSchema e \<lparr>VS_SchemaType = ty, VS_SchemaContent = content\<rparr> s)
            = AbortWithStatusJSON (SHOWABLE_ERROR_STATUS_CODE e) (Error_text err))
    \<and> (\<forall>err. validateSchemaType (ToLower e ty) = None
              \<and> validateSchemaContent e content (ToLower e ty) = Some err \<longrightarrow>
          fst (ValidateSchema e \<lparr>VS_SchemaType = ty, VS_SchemaContent = content\<rparr> s)
            = AbortWithStatusJSON SCHEMA_VALIDATION_ERROR_STATUS_CODE (Error_text err))
    \<and> (\<forall>name msn tags sch user.
          validateSchemaName e (ToLower e name) = None
          \<and> IsSchemaExist e (ToLower e name) = (False, sch, None)
          \<and> getUserDetailsFromMiddleware e = (user, None)
          \<and> msn \<noteq> ''''
          \<and> fst (ValidateSchema e \<lparr>VS_SchemaType = ty, VS_SchemaContent = content\<rparr> s) \<noteq> IndentedJSON 200 (JIsValid True)
          \<longrightarrow> CreateNewSchema e \<lparr>CNS_Name = name, CNS_Type = ty, CNS_SchemaContent = content,
                                 CNS_MessageStructName = msn, CNS_Tags = tags\<rparr> s
               = ValidateSchema e \<lparr>VS_SchemaType = ty, VS_SchemaContent = content\<rparr> s)"
  using assms
  by (auto simp: ValidateSchema_def CreateNewSchema_def validateMessageStructName_def Let_def
      split: option.splits prod.splits)

theorem ValidateSchema_type_and_content_rules_witness:
  "utils_Validate quietEnv
   \<and> ValidateSchema quietEnv \<lparr>VS_SchemaType = ''Avro'', VS_SchemaContent = ''message M {}''\<rparr> emptyState
       = (AbortWithStatusJSON 666 ''Json/Avro types are not supported at this time'', emptyState)
   \<and> CreateNewSchema quietEnv
        \<lparr>CNS_Name = ''orders'', CNS_Type = ''Avro'', CNS_SchemaContent = ''message M {}'',
         CNS_MessageStructName = ''M'', CNS_Tags = []\<rparr> emptyState
       = (AbortWithStatusJSON 666 ''Json/Avro types are not supported at this time'', emptyState)"
proof -
  have v: "utils_Validate quietEnv"
    by (simp add: quietEnv_def)
  have lower: "ToLower quietEnv ''Avro'' = ''avro''" "ToLower quietEnv ''orders'' = ''orders''"
    by (simp_all add: env_simps)
  have ty: "validateSchemaType ''avro'' = Some (Error ''Json/Avro types are not supported at this time'')"
    by (simp add: validateSchemaType_def)
  have env: "validateSchemaName quietEnv ''orders'' = None"
    "IsSchemaExist quietEnv ''orders'' = (False, zeroSchema, None)"
    "getUserDetailsFromMiddleware quietEnv = (\<lparr>User_Username = ''root''\<rparr>, None)"
    "SHOWABLE_ERROR_STATUS_CODE quietEnv = 666"
    by (simp_all add: quietEnv_def validateSchemaName_def)
  note rules = ValidateSchema_type_and_content_rules
    [OF v, of "''Avro''" "''message M {}''" emptyState, unfolded lower ty]
  from rules have snd_eq:
    "snd (ValidateSchema quietEnv \<lparr>VS_SchemaType = ''Avro'', VS_SchemaContent = ''message M {}''\<rparr> emptyState) = emptyState"
    by blast
  from rules have fst_eq:
    "fst (ValidateSchema quietEnv \<lparr>VS_SchemaType = ''Avro'', VS_SchemaContent = ''message M {}''\<rparr> emptyState)
       = AbortWithStatusJSON 666 ''Json/Avro types are not supported at this time''"
    by (simp add: env Error_text_def)
  have whole:
    "ValidateSchema quietEnv \<lparr>VS_SchemaType = ''Avro'', VS_SchemaContent = ''message M {}''\<rparr> emptyState
       = (AbortWithStatusJSON 666 ''Json/Avro types are not supported at this time'', emptyState)"
    using fst_eq snd_eq by (simp add: prod_eq_iff)
  from rules have
    "CreateNewSchema quietEnv
        \<lparr>CNS_Name = ''orders'', CNS_Type = ''Avro'', CNS_SchemaContent = ''message M {}'',
         CNS_MessageStructName = ''M'', CNS_Tags = []\<rparr> emptyState
       = ValidateSchema quietEnv \<lparr>VS_SchemaType = ''Avro'', VS_SchemaContent = ''message M {}''\<rparr> emptyState"
    using env lower fst_eq by auto
  with whole v show ?thesis by simp
qed

section \<open>Properties of the station overview\<close>



section \<open>Properties of the producer operations\<close>







subsection \<open>What each operation does to the producer rows\<close>

lemma producers_CreateAuditLogs [simp]:
  "producersCollection (snd (CreateAuditLogs e logs s)) = producersCollection s"
  by (simp add: CreateAuditLogs_def split: option.splits)

lemma producers_autoCreateStation [simp]:
  "producersCollection (snd (autoCreateStation e c stationName connection s)) = producersCollection s"
  by (simp add: autoCreateStation_def CreateDefaultStation_def IncrementStationsCounter_def Let_def
      split: option.splits)

lemma createProducerDirect_rows:
  "producersCollection (snd (createProducerDirect e cpr c s)) = producersCollection s
   \<or> (\<exists>p. producersCollection (snd (createProducerDirect e cpr c s)) = producersCollection s @ [p]
          \<and> Producer_IsActive p \<and> \<not> Producer_IsDeleted p)"
proof -
  have auto_rows: "producersCollection s1 = producersCollection s"
    if "(if b then autoCreateStation e c n conn s else ((st0, None), s)) = (r, s1)" for b n conn st0 r s1
    using that
    by (cases b) (auto dest: arg_cong [where f = "\<lambda>x. producersCollection (snd x)"])
  have auto_rows2: "producersCollection s1 = producersCollection s"
    if "autoCreateStation e c n conn s = (r, s1)" for n conn r s1
    using that
    by (auto dest: arg_cong [where f = "\<lambda>x. producersCollection (snd x)"])
  show ?thesis
    unfolding createProducerDirect_def Let_def
    by (auto simp: IncrementProducersCounter_def dest!: auto_rows auto_rows2
        split: option.splits prod.splits)
qed

lemma destroyProducerDirect_rows:
  "producersCollection (snd (destroyProducerDirect e dpr c s)) = producersCollection s
   \<or> (\<exists>name stationId.
         producersCollection (snd (destroyProducerDirect e dpr c s)) =
           updateOne (destroyFilter name stationId)
             (\<lambda>p. p\<lparr>Producer_IsActive := False, Producer_IsDeleted := True\<rparr>) (producersCollection s))"
  unfolding destroyProducerDirect_def FindOneAndUpdate_destroy_def Let_def
  by (auto split: option.splits prod.splits if_splits)

lemma KillProducers_rows:
  "producersCollection (snd (KillProducers e connectionId s)) = producersCollection s
   \<or> producersCollection (snd (KillProducers e connectionId s)) =
        updateMany (\<lambda>p. Producer_ConnectionId p = connectionId)
          (\<lambda>p. p\<lparr>Producer_IsActive := False\<rparr>) (producersCollection s)"
  unfolding KillProducers_def Let_def
  by (auto split: option.splits)

lemma ReliveProducers_rows:
  "producersCollection (snd (ReliveProducers e connectionId s)) = producersCollection s
   \<or> producersCollection (snd (ReliveProducers e connectionId s)) =
        updateMany (\<lambda>p. Producer_ConnectionId p = connectionId \<and> \<not> Producer_IsDeleted p)
          (\<lambda>p. p\<lparr>Producer_IsActive := True\<rparr>) (producersCollection s)"
  unfolding ReliveProducers_def
  by (auto split: option.splits)

lemma list_all_updateOne:
  "list_all Q xs \<Longrightarrow> (\<And>x. P x \<Longrightarrow> Q (f x)) \<Longrightarrow> list_all Q (updateOne P f xs)"
  by (induction xs) auto

lemma list_all_updateMany:
  "list_all Q xs \<Longrightarrow> (\<And>x. P x \<Longrightarrow> Q x \<Longrightarrow> Q (f x)) \<Longrightarrow> list_all Q (updateMany P f xs)"
  by (induction xs) (auto simp: updateMany_def)

lemma apply_op_invariant:
  assumes "deleted_implies_inactive s"
  shows "deleted_implies_inactive (apply_op s op)"
proof (cases op)
  case (CreateProducer e cpr c)
  with assms createProducerDirect_rows [of e cpr c s] show ?thesis
    by (auto simp: deleted_implies_inactive_def)
next
  case (DestroyProducer e dpr c)
  with assms destroyProducerDirect_rows [of e dpr c s] show ?thesis
    by (auto simp: deleted_implies_inactive_def intro!: list_all_updateOne)
next
  case (Kill e connectionId)
  with assms KillProducers_rows [of e connectionId s] show ?thesis
    by (auto simp: deleted_implies_inactive_def intro!: list_all_updateMany)
next
  case (Relive e connectionId)
  with assms ReliveProducers_rows [of e connectionId s] show ?thesis
    by (auto simp: deleted_implies_inactive_def intro!: list_all_updateMany)
qed

lemma run_ops_invariant:
  "deleted_implies_inactive s \<Longrightarrow> deleted_implies_inactive (run_ops s ops)"
  unfolding run_ops_def
  by (induction ops arbitrary: s) (auto intro: apply_op_invariant)

lemmas run_simps =
  createProducerDirect_def destroyProducerDirect_def KillProducers_def ReliveProducers_def
  FindOneAndUpdate_destroy_def destroyFilter_def CreateAuditLogs_def killAuditLogs_def
  updateMany_def quietEnv_def emptyState_def ToLower_def isASCII_def lowerByte_def
  validateProducerName_def validateProducerType_def matchesNameRegexp_def
  connection7_def station5_def zeroStation_def Let_def

text \<open>
  C3: every producer row that a sequence of \<open>createProducerDirect\<close>,
  \<open>destroyProducerDirect\<close>, \<open>KillProducers\<close> and \<open>ReliveProducers\<close> calls leaves in a
  store that started without producers satisfies "deleted implies not active", whatever the
  environments of the calls answer. The writes are these: a create appends one row with
  \<open>is_active\<close> set and \<open>is_deleted\<close> clear, a destroy sets the first row of its filter to
  not active and deleted, a kill clears \<open>is_active\<close> on the rows of the connection, and a
  relive sets \<open>is_active\<close> on the rows of the connection that are not deleted.
\<close>

theorem deleted_rows_are_inactive:
  assumes "producersCollection s0 = []"
  shows "(\<forall>R \<in> set (producersCollection (run_ops s0 ops)). Producer_IsDeleted R \<longrightarrow> \<not> Producer_IsActive R)
    \<and> (\<forall>e cpr c s.
          producersCollection (snd (createProducerDirect e cpr c s)) = producersCollection s
          \<or> (\<exists>p. producersCollection (snd (createProducerDirect e cpr c s)) = producersCollection s @ [p]
                 \<and> Producer_IsActive p \<and> \<not> Producer_IsDeleted p))
    \<and> (\<forall>e dpr c s.
          producersCollection (snd (destroyProducerDirect e dpr c s)) = producersCollection s
          \<or> (\<exists>name stationId.
                producersCollection (snd (destroyProducerDirect e dpr c s)) =
                  updateOne (destroyFilter name stationId)
                    (\<lambda>p. p\<lparr>Producer_IsActive := False, Producer_IsDeleted := True\<rparr>) (producersCollection s)))
    \<and> (\<forall>e connectionId s.
          producersCollection (snd (KillProducers e connectionId s)) = producersCollection s
          \<or> producersCollection (snd (KillProducers e connectionId s)) =
               updateMany (\<lambda>p. Producer_ConnectionId p = connectionId)
                 (\<lambda>p. p\<lparr>Producer_IsActive := False\<rparr>) (producersCollection s))
    \<and> (\<forall>e connectionId s.
          producersCollection (snd (ReliveProducers e connectionId s)) = producersCollection s
          \<or> producersCollection (snd (ReliveProducers e connectionId s)) =
               updateMany (\<lambda>p. Producer_ConnectionId p = connectionId \<and> \<not> Producer_IsDeleted p)
                 (\<lambda>p. p\<lparr>Producer_IsActive := True\<rparr>) (producersCollection s))"
proof -
  from assms have "deleted_implies_inactive s0"
    by (simp add: deleted_implies_inactive_def)
  then have "deleted_implies_inactive (run_ops s0 ops)"
    by (rule run_ops_invariant)
  then have "\<forall>R \<in> set (producersCollection (run_ops s0 ops)). Producer_IsDeleted R \<longrightarrow> \<not> Producer_IsActive R"
    by (simp add: deleted_implies_inactive_def list_all_iff)
  with createProducerDirect_rows destroyProducerDirect_rows KillProducers_rows ReliveProducers_rows
  show ?thesis by blast
qed

text \<open>
  A run from the empty store: the producer is created, killed, relived, destroyed, and a
  last relive leaves the deleted row inactive.
\<close>

lemma run_example:
  "producersCollection (run_ops emptyState
      [CreateProducer quietEnv request_p1 rootClient, Kill quietEnv 7, Relive quietEnv 7,
       DestroyProducer quietEnv destroy_p1 rootClient, Relive quietEnv 7])
   = [producer_p1\<lparr>Producer_IsActive := False, Producer_IsDeleted := True\<rparr>]"
  by (simp add: run_ops_def run_simps request_p1_def destroy_p1_def rootClient_def producer_p1_def)


theorem deleted_rows_are_inactive_witness:
  "producersCollection emptyState = []
   \<and> producersCollection (run_ops emptyState
        [CreateProducer quietEnv request_p1 rootClient, Kill quietEnv 7, Relive quietEnv 7,
         DestroyProducer quietEnv destroy_p1 rootClient, Relive quietEnv 7])
       = [producer_p1\<lparr>Producer_IsActive := False, Producer_IsDeleted := True\<rparr>]
   \<and> Producer_IsDeleted (producer_p1\<lparr>Producer_IsActive := False, Producer_IsDeleted := True\<rparr>)
   \<and> \<not> Producer_IsActive (producer_p1\<lparr>Producer_IsActive := False, Producer_IsDeleted := True\<rparr>)"
proof -
  let ?ops = "[CreateProducer quietEnv request_p1 rootClient, Kill quietEnv 7, Relive quietEnv 7,
         DestroyProducer quietEnv destroy_p1 rootClient, Relive quietEnv 7]"
  let ?row = "producer_p1\<lparr>Producer_IsActive := False, Producer_IsDeleted := True\<rparr>"
  have start: "producersCollection emptyState = []"
    by (simp add: emptyState_def)
  have deleted: "Producer_IsDeleted ?row"
    by simp
  from deleted_rows_are_inactive [OF start, of ?ops]
  have "\<forall>R \<in> set (producersCollection (run_ops emptyState ?ops)).
          Producer_IsDeleted R \<longrightarrow> \<not> Producer_IsActive R"
    by blast
  then have "Producer_IsDeleted ?row \<longrightarrow> \<not> Producer_IsActive ?row"
    unfolding run_example by simp
  with deleted have inactive: "\<not> Producer_IsActive ?row"
    by blast
  from start run_example deleted inactive show ?thesis
    by blast
qed

lemma updateOne_first:
  "list_ex P xs \<Longrightarrow>
     \<exists>pre x post. xs = pre @ x # post \<and> P x \<and> (\<forall>q \<in> set pre. \<not> P q)
        \<and> updateOne P f xs = pre @ f x # post"
proof (induction xs)
  case Nil
  then show ?case by simp
next
  case (Cons a xs)
  show ?case
  proof (cases "P a")
    case True
    then have "a # xs = [] @ a # xs \<and> P a \<and> (\<forall>q \<in> set []. \<not> P q)
        \<and> updateOne P f (a # xs) = [] @ f a # xs"
      by simp
    then show ?thesis by blast
  next
    case False
    with Cons.prems have "list_ex P xs" by simp
    from Cons.IH [OF this] obtain pre x post where
      "xs = pre @ x # post" "P x" "\<forall>q \<in> set pre. \<not> P q" "updateOne P f xs = pre @ f x # post"
      by blast
    with False have "a # xs = (a # pre) @ x # post \<and> P x \<and> (\<forall>q \<in> set (a # pre). \<not> P q)
        \<and> updateOne P f (a # xs) = (a # pre) @ f x # post"
      by simp
    then show ?thesis by blast
  qed
qed

lemma updateOne_unique_gone:
  assumes "length (filter P xs) = 1" and "\<And>x. \<not> P (f x)"
  shows "\<not> list_ex P (updateOne P f xs)"
  using assms(1)
proof (induction xs)
  case Nil
  then show ?case by simp
next
  case (Cons a xs)
  show ?case
  proof (cases "P a")
    case True
    with Cons.prems have "filter P xs = []" by simp
    then have "\<not> list_ex P xs"
      by (simp add: list_ex_iff filter_empty_conv)
    with True assms(2) show ?thesis by simp
  next
    case False
    with Cons show ?thesis by simp
  qed
qed

text \<open>
  C4: with the station looked up and the store answering, \<open>destroyProducerDirect\<close> sets
  the first producer row with the given name and station that is active to not active and
  deleted, in one \<open>FindOneAndUpdate\<close>, and touches no other row; when no row matches it
  fails with \<open>Producer does not exist\<close> and leaves the state as it was. When the matching
  row is the only one, a second destroy right after the first fails with that error and
  changes nothing.
\<close>

theorem destroyProducerDirect_find_one_and_update:
  assumes lookup: "IsStationExist e (ToLower e (DPR_StationName dpr)) = (exist, station, None)"
    and store: "fault e FindOneAndUpdateProducer = None"
  shows
    "(list_ex (destroyFilter (ToLower e (DPR_ProducerName dpr)) (Station_ID station)) (producersCollection s) \<longrightarrow>
        fst (destroyProducerDirect e dpr c s) = None
        \<and> (\<exists>pre p post.
              producersCollection s = pre @ p # post
              \<and> destroyFilter (ToLower e (DPR_ProducerName dpr)) (Station_ID station) p
              \<and> (\<forall>q \<in> set pre. \<not> destroyFilter (ToLower e (DPR_ProducerName dpr)) (Station_ID station) q)
              \<and> producersCollection (snd (destroyProducerDirect e dpr c s))
                  = pre @ p\<lparr>Producer_IsActive := False, Producer_IsDeleted := True\<rparr> # post))
     \<and> (\<not> list_ex (destroyFilter (ToLower e (DPR_ProducerName dpr)) (Station_ID station)) (producersCollection s) \<longrightarrow>
        destroyProducerDirect e dpr c s = (Some (Error ''Producer does not exist''), s))
     \<and> (length (filter (destroyFilter (ToLower e (DPR_ProducerName dpr)) (Station_ID station)) (producersCollection s)) = 1 \<longrightarrow>
        fst (destroyProducerDirect e dpr c s) = None
        \<and> destroyProducerDirect e dpr c' (snd (destroyProducerDirect e dpr c s))
            = (Some (Error ''Producer does not exist''), snd (destroyProducerDirect e dpr c s)))"
proof -
  let ?F = "destroyFilter (ToLower e (DPR_ProducerName dpr)) (Station_ID station)"
  let ?f = "\<lambda>p. p\<lparr>Producer_IsActive := False, Producer_IsDeleted := True\<rparr>"
  have missing: "destroyProducerDirect e dpr k t = (Some (Error ''Producer does not exist''), t)"
    if "\<not> list_ex ?F (producersCollection t)" for k t
    using that lookup store
    by (simp add: destroyProducerDirect_def FindOneAndUpdate_destroy_def Let_def)
  have found: "fst (destroyProducerDirect e dpr c s) = None
      \<and> producersCollection (snd (destroyProducerDirect e dpr c s)) = updateOne ?F ?f (producersCollection s)"
    if "list_ex ?F (producersCollection s)"
    using that lookup store
    by (simp add: destroyProducerDirect_def FindOneAndUpdate_destroy_def Let_def)
  have first: "\<exists>pre p post.
              producersCollection s = pre @ p # post \<and> ?F p \<and> (\<forall>q \<in> set pre. \<not> ?F q)
              \<and> producersCollection (snd (destroyProducerDirect e dpr c s)) = pre @ ?f p # post"
    if "list_ex ?F (producersCollection s)"
    using updateOne_first [OF that, of ?f] found [OF that] by simp
  have twice: "fst (destroyProducerDirect e dpr c s) = None
        \<and> destroyProducerDirect e dpr c' (snd (destroyProducerDirect e dpr c s))
            = (Some (Error ''Producer does not exist''), snd (destroyProducerDirect e dpr c s))"
    if one: "length (filter ?F (producersCollection s)) = 1"
  proof -
    from one have "filter ?F (producersCollection s) \<noteq> []" by auto
    then have ex: "list_ex ?F (producersCollection s)"
      by (simp add: list_ex_iff filter_empty_conv)
    have "\<not> ?F (?f x)" for x
      by (simp add: destroyFilter_def)
    from updateOne_unique_gone [OF one this]
    have "\<not> list_ex ?F (producersCollection (snd (destroyProducerDirect e dpr c s)))"
      using found [OF ex] by simp
    from missing [OF this] found [OF ex] show ?thesis by simp
  qed
  from missing [of s c] found first twice show ?thesis by blast
qed

theorem destroyProducerDirect_find_one_and_update_witness:
  "IsStationExist quietEnv (ToLower quietEnv (DPR_StationName destroy_p1)) = (True, station5, None)
   \<and> fault quietEnv FindOneAndUpdateProducer = None
   \<and> length (filter (destroyFilter (ToLower quietEnv (DPR_ProducerName destroy_p1)) (Station_ID station5))
               (producersCollection stateWithProducers)) = 1
   \<and> \<not> list_ex (destroyFilter (ToLower quietEnv (DPR_ProducerName destroy_p1)) (Station_ID station5))
               (producersCollection emptyState)
   \<and> fst (destroyProducerDirect quietEnv destroy_p1 rootClient stateWithProducers) = None
   \<and> destroyProducerDirect quietEnv destroy_p1 rootClient
        (snd (destroyProducerDirect quietEnv destroy_p1 rootClient stateWithProducers))
       = (Some (Error ''Producer does not exist''),
          snd (destroyProducerDirect quietEnv destroy_p1 rootClient stateWithProducers))
   \<and> destroyProducerDirect quietEnv destroy_p1 rootClient emptyState
       = (Some (Error ''Producer does not exist''), emptyState)"
proof -
  have lookup: "IsStationExist quietEnv (ToLower quietEnv (DPR_StationName destroy_p1)) = (True, station5, None)"
    by (simp add: quietEnv_def)
  have store: "fault quietEnv FindOneAndUpdateProducer = None"
    by (simp add: quietEnv_def)
  have name: "ToLower quietEnv (DPR_ProducerName destroy_p1) = ''p1''"
    by (simp add: destroy_p1_def ToLower_def isASCII_def lowerByte_def)
  have one: "length (filter (destroyFilter (ToLower quietEnv (DPR_ProducerName destroy_p1)) (Station_ID station5))
               (producersCollection stateWithProducers)) = 1"
    by (simp add: name stateWithProducers_def emptyState_def destroyFilter_def station5_def
        producer_p1_def producer_p2_def producer_p3_def)
  have none: "\<not> list_ex (destroyFilter (ToLower quietEnv (DPR_ProducerName destroy_p1)) (Station_ID station5))
               (producersCollection emptyState)"
    by (simp add: emptyState_def)
  from destroyProducerDirect_find_one_and_update
         [OF lookup store, of stateWithProducers rootClient rootClient] one
  have twice: "fst (destroyProducerDirect quietEnv destroy_p1 rootClient stateWithProducers) = None
     \<and> destroyProducerDirect quietEnv destroy_p1 rootClient
        (snd (destroyProducerDirect quietEnv destroy_p1 rootClient stateWithProducers))
       = (Some (Error ''Producer does not exist''),
          snd (destroyProducerDirect quietEnv destroy_p1 rootClient stateWithProducers))"
    by blast
  from destroyProducerDirect_find_one_and_update
         [OF lookup store, of emptyState rootClient rootClient] none
  have missing: "destroyProducerDirect quietEnv destroy_p1 rootClient emptyState
       = (Some (Error ''Producer does not exist''), emptyState)"
    by blast
  from lookup store one none twice missing show ?thesis by blast
qed

text \<open>
  C5: with the store answering, \<open>KillProducers\<close> followed by \<open>ReliveProducers\<close> on the
  same connection both return nil and leave every producer of the connection active
  exactly when it is not deleted: the rows that are not deleted are active again, the
  deleted ones stay inactive, and the rows of other connections are as they were.
\<close>

theorem kill_then_relive:
  assumes kill: "fault e FindProducers = None" "fault e CursorAllProducers = None"
      "fault e UpdateManyKill = None"
    and relive: "fault e' UpdateManyRelive = None"
  shows "fst (KillProducers e connectionId s) = Return None
    \<and> fst (ReliveProducers e' connectionId (snd (KillProducers e connectionId s))) = None
    \<and> producersCollection (snd (ReliveProducers e' connectionId (snd (KillProducers e connectionId s))))
        = map (\<lambda>p. if Producer_ConnectionId p = connectionId
                    then p\<lparr>Producer_IsActive := \<not> Producer_IsDeleted p\<rparr> else p)
            (producersCollection s)"
proof -
  let ?kill = "updateMany (\<lambda>p. Producer_ConnectionId p = connectionId) (\<lambda>p. p\<lparr>Producer_IsActive := False\<rparr>)"
  have idle: "?kill xs = xs"
    if "filter (\<lambda>p. Producer_ConnectionId p = connectionId \<and> Producer_IsActive p) xs = []" for xs
    using that by (induction xs) (auto simp: updateMany_def split: if_splits)
  have killed: "fst (KillProducers e connectionId s) = Return None
      \<and> producersCollection (snd (KillProducers e connectionId s)) = ?kill (producersCollection s)"
    using kill idle [of "producersCollection s"]
    by (auto simp: KillProducers_def Let_def)
  have relived: "fst (ReliveProducers e' connectionId t) = None
      \<and> producersCollection (snd (ReliveProducers e' connectionId t))
          = updateMany (\<lambda>p. Producer_ConnectionId p = connectionId \<and> \<not> Producer_IsDeleted p)
              (\<lambda>p. p\<lparr>Producer_IsActive := True\<rparr>) (producersCollection t)" for t
    using relive by (simp add: ReliveProducers_def)
  have "updateMany (\<lambda>p. Producer_ConnectionId p = connectionId \<and> \<not> Producer_IsDeleted p)
              (\<lambda>p. p\<lparr>Producer_IsActive := True\<rparr>) (?kill xs)
        = map (\<lambda>p. if Producer_ConnectionId p = connectionId
                    then p\<lparr>Producer_IsActive := \<not> Producer_IsDeleted p\<rparr> else p) xs" for xs
    by (induction xs) (auto simp: updateMany_def)
  with killed relived show ?thesis by simp
qed

theorem kill_then_relive_witness:
  "fault quietEnv FindProducers = None \<and> fault quietEnv CursorAllProducers = None
   \<and> fault quietEnv UpdateManyKill = None \<and> fault quietEnv UpdateManyRelive = None
   \<and> producersCollection (snd (KillProducers quietEnv 7 stateWithProducers))
       = [producer_p1\<lparr>Producer_IsActive := False\<rparr>, producer_p2, producer_p3]
   \<and> producersCollection
        (snd (ReliveProducers quietEnv 7 (snd (KillProducers quietEnv 7 stateWithProducers))))
       = [producer_p1, producer_p2, producer_p3]"
proof -
  have faults: "fault quietEnv FindProducers = None" "fault quietEnv CursorAllProducers = None"
    "fault quietEnv UpdateManyKill = None" "fault quietEnv UpdateManyRelive = None"
    by (simp_all add: quietEnv_def)
  have killed: "producersCollection (snd (KillProducers quietEnv 7 stateWithProducers))
       = [producer_p1\<lparr>Producer_IsActive := False\<rparr>, producer_p2, producer_p3]"
    by (simp add: KillProducers_def quietEnv_def stateWithProducers_def emptyState_def
        updateMany_def CreateAuditLogs_def Let_def producer_p1_def producer_p2_def producer_p3_def)
  from kill_then_relive [OF faults, of 7 stateWithProducers]
  have "producersCollection
        (snd (ReliveProducers quietEnv 7 (snd (KillProducers quietEnv 7 stateWithProducers))))
       = [producer_p1, producer_p2, producer_p3]"
    by (simp add: stateWithProducers_def emptyState_def producer_p1_def producer_p2_def producer_p3_def)
  with faults killed show ?thesis by simp
qed

section \<open>Properties of schema creation and versioning\<close>




text \<open>
  C2: for a request on a schema that the lookup finds, with valid content, a known user
  and the store answering, \<open>CreateNewVersion\<close> takes as number the count of the versions
  of the schema plus 1; when no version of the schema has that number the upsert appends
  the new version with \<open>active\<close> clear and nothing else changes, and when one has it
  the handler fails with \<open>Version already exists\<close> and writes nothing.
\<close>

theorem CreateNewVersion_next_number:
  assumes bound: "utils_Validate e"
    and lookup: "IsSchemaExist e (ToLower e (CNV_SchemaName body)) = (True, schema, None)"
    and user: "getUserDetailsFromMiddleware e = (user, None)"
    and msn: "Schema_Type schema = ''protobuf'' \<longrightarrow>
                validateMessageStructName (CNV_MessageStructName body) = None"
    and content: "validateSchemaContent e (CNV_SchemaContent body) (Schema_Type schema) = None"
    and store: "fault e CountVersions = None" "fault e UpsertSchemaVersion = None"
    and next_number: "next =
        int (length (filter (\<lambda>v. SV_SchemaId v = Schema_ID schema) (schemaVersionCollection s))) + 1"
  shows
    "(\<not> list_ex (\<lambda>v. SV_SchemaId v = Schema_ID schema \<and> SV_VersionNumber v = next)
           (schemaVersionCollection s) \<longrightarrow>
        snd (CreateNewVersion e body s) =
          s\<lparr>schemaVersionCollection := schemaVersionCollection s @
              [\<lparr>SV_ID = NewObjectID e 0, SV_VersionNumber = next, SV_Active = False,
                SV_CreatedByUser = User_Username user, SV_CreationDate = Now e 0,
                SV_SchemaContent = CNV_SchemaContent body, SV_SchemaId = Schema_ID schema,
                SV_MessageStructName = CNV_MessageStructName body\<rparr>]\<rparr>)
     \<and> (list_ex (\<lambda>v. SV_SchemaId v = Schema_ID schema \<and> SV_VersionNumber v = next)
           (schemaVersionCollection s) \<longrightarrow>
        CreateNewVersion e body s =
          (AbortWithStatusJSON (SHOWABLE_ERROR_STATUS_CODE e) ''Version already exists'', s))"
  using assms
  by (auto simp: CreateNewVersion_def getVersionsCount_def upsertSchemaVersion_def Let_def
      split: option.splits prod.splits)

lemma version_body_valid:
  "utils_Validate foundEnv"
  "IsSchemaExist foundEnv (ToLower foundEnv (CNV_SchemaName version_body)) = (True, schema_orders, None)"
  "getUserDetailsFromMiddleware foundEnv = (\<lparr>User_Username = ''root''\<rparr>, None)"
  "Schema_Type schema_orders = ''protobuf'' \<longrightarrow>
     validateMessageStructName (CNV_MessageStructName version_body) = None"
  "validateSchemaContent foundEnv (CNV_SchemaContent version_body) (Schema_Type schema_orders) = None"
  "fault foundEnv CountVersions = None"
  "fault foundEnv UpsertSchemaVersion = None"
  by (simp_all add: version_body_def foundEnv_def quietEnv_def schema_orders_def env_simps)

theorem CreateNewVersion_next_number_witness:
  "utils_Validate foundEnv
   \<and> IsSchemaExist foundEnv (ToLower foundEnv (CNV_SchemaName version_body)) = (True, schema_orders, None)
   \<and> validateSchemaContent foundEnv (CNV_SchemaContent version_body) (Schema_Type schema_orders) = None
   \<and> snd (CreateNewVersion foundEnv version_body stateWithSchema) = stateWithTwoVersions
   \<and> CreateNewVersion foundEnv version_body stateWithGap
       = (AbortWithStatusJSON 666 ''Version already exists'', stateWithGap)"
proof -
  have two: "(2::int) =
      int (length (filter (\<lambda>v. SV_SchemaId v = Schema_ID schema_orders) (schemaVersionCollection stateWithSchema))) + 1"
    "(2::int) =
      int (length (filter (\<lambda>v. SV_SchemaId v = Schema_ID schema_orders) (schemaVersionCollection stateWithGap))) + 1"
    by (simp_all add: stateWithSchema_def stateWithGap_def emptyState_def schema_orders_def
        version1_def version2_def)
  have free: "\<not> list_ex (\<lambda>v. SV_SchemaId v = Schema_ID schema_orders \<and> SV_VersionNumber v = 2)
           (schemaVersionCollection stateWithSchema)"
    by (simp add: stateWithSchema_def emptyState_def schema_orders_def version1_def)
  have taken: "list_ex (\<lambda>v. SV_SchemaId v = Schema_ID schema_orders \<and> SV_VersionNumber v = 2)
           (schemaVersionCollection stateWithGap)"
    by (simp add: stateWithGap_def emptyState_def schema_orders_def version2_def)
  have fields: "SHOWABLE_ERROR_STATUS_CODE foundEnv = 666" "NewObjectID foundEnv 0 = 200"
    "Now foundEnv 0 = 2000" "Schema_ID schema_orders = 100"
    "CNV_SchemaContent version_body = ''message M {}''" "CNV_MessageStructName version_body = ''M''"
    by (simp_all add: foundEnv_def quietEnv_def version_body_def schema_orders_def)
  from CreateNewVersion_next_number [OF version_body_valid two(1)] free
  have written: "snd (CreateNewVersion foundEnv version_body stateWithSchema) = stateWithTwoVersions"
    by (simp add: fields stateWithSchema_def stateWithTwoVersions_def emptyState_def version2_def)
  from CreateNewVersion_next_number [OF version_body_valid two(2)] taken
  have refused: "CreateNewVersion foundEnv version_body stateWithGap
       = (AbortWithStatusJSON 666 ''Version already exists'', stateWithGap)"
    by (simp add: fields)
  from version_body_valid written refused show ?thesis by simp
qed

subsection \<open>Rolling back\<close>

lemma updateMany_cleared:
  assumes "v \<in> set (updateMany (\<lambda>v. SV_SchemaId v = sid) (\<lambda>v. v\<lparr>SV_Active := False\<rparr>) xs)"
    and "SV_SchemaId v = sid"
  shows "\<not> SV_Active v"
proof -
  from assms(1)
  have "v \<in> (\<lambda>x. if SV_SchemaId x = sid then x\<lparr>SV_Active := False\<rparr> else x) ` set xs"
    unfolding updateMany_def set_map .
  then obtain x where
    v: "v = (if SV_SchemaId x = sid then x\<lparr>SV_Active := False\<rparr> else x)"
    by (rule imageE)
  show ?thesis
  proof (cases "SV_SchemaId x = sid")
    case True
    with v show ?thesis by simp
  next
    case False
    with v assms(2) show ?thesis by simp
  qed
qed

lemma updateMany_keeps_target:
  "list_ex (\<lambda>v. SV_SchemaId v = sid \<and> SV_VersionNumber v = n)
     (updateMany (\<lambda>v. SV_SchemaId v = sid) (\<lambda>v. v\<lparr>SV_Active := False\<rparr>) xs)
   = list_ex (\<lambda>v. SV_SchemaId v = sid \<and> SV_VersionNumber v = n) xs"
  by (induction xs) (auto simp: updateMany_def)

lemma updateMany_others:
  assumes "\<And>x. P x \<Longrightarrow> P (f x)"
  shows "filter (\<lambda>v. \<not> P v) (updateMany P f xs) = filter (\<lambda>v. \<not> P v) xs"
proof (induction xs)
  case Nil
  show ?case by (simp add: updateMany_def)
next
  case (Cons a xs)
  from Cons have "filter (\<lambda>v. \<not> P v) (map (\<lambda>x. if P x then f x else x) xs) = filter (\<lambda>v. \<not> P v) xs"
    by (simp add: updateMany_def)
  with assms [of a] show ?case
    by (cases "P a") (simp_all add: updateMany_def)
qed

lemma updateOne_others:
  assumes "\<And>x. Q x \<Longrightarrow> P x \<and> P (f x)"
  shows "filter (\<lambda>v. \<not> P v) (updateOne Q f xs) = filter (\<lambda>v. \<not> P v) xs"
proof (induction xs)
  case Nil
  show ?case by simp
next
  case (Cons a xs)
  with assms [of a] show ?case
    by (cases "Q a") simp_all
qed

lemma updateActiveVersion_only_target:
  assumes store: "fault e UpdateManyVersions = None" "fault e UpdateOneVersion = None"
    and target: "list_ex (\<lambda>v. SV_SchemaId v = sid \<and> SV_VersionNumber v = n) (schemaVersionCollection s)"
  shows "fst (updateActiveVersion e sid n s) = None
    \<and> (\<exists>pre t post.
          schemaVersionCollection (snd (updateActiveVersion e sid n s)) = pre @ t # post
          \<and> SV_SchemaId t = sid \<and> SV_VersionNumber t = n \<and> SV_Active t
          \<and> (\<forall>v \<in> set (pre @ post). SV_SchemaId v = sid \<longrightarrow> \<not> SV_Active v))
    \<and> filter (\<lambda>v. SV_SchemaId v \<noteq> sid) (schemaVersionCollection (snd (updateActiveVersion e sid n s)))
        = filter (\<lambda>v. SV_SchemaId v \<noteq> sid) (schemaVersionCollection s)
    \<and> (\<exists>versions. snd (updateActiveVersion e sid n s) = s\<lparr>schemaVersionCollection := versions\<rparr>)"
proof -
  let ?T = "\<lambda>v. SV_SchemaId v = sid \<and> SV_VersionNumber v = n"
  let ?cleared = "updateMany (\<lambda>v. SV_SchemaId v = sid) (\<lambda>v. v\<lparr>SV_Active := False\<rparr>) (schemaVersionCollection s)"
  let ?set = "\<lambda>v. v\<lparr>SV_Active := True\<rparr>"
  have result: "updateActiveVersion e sid n s
      = (None, s\<lparr>schemaVersionCollection := updateOne ?T ?set ?cleared\<rparr>)"
    using store by (simp add: updateActiveVersion_def Let_def)
  from target have "list_ex ?T ?cleared"
    by (simp add: updateMany_keeps_target)
  from updateOne_first [OF this, of ?set] obtain pre x post where
    split: "?cleared = pre @ x # post" "?T x" "updateOne ?T ?set ?cleared = pre @ ?set x # post"
    by blast
  have rest: "\<forall>v \<in> set (pre @ post). SV_SchemaId v = sid \<longrightarrow> \<not> SV_Active v"
  proof (intro ballI impI)
    fix v
    assume "v \<in> set (pre @ post)" and sid: "SV_SchemaId v = sid"
    then have "v \<in> set (pre @ x # post)" by auto
    then have "v \<in> set ?cleared" unfolding split(1) .
    from updateMany_cleared [OF this sid] show "\<not> SV_Active v" .
  qed
  have shape: "\<exists>pre t post.
          updateOne ?T ?set ?cleared = pre @ t # post
          \<and> SV_SchemaId t = sid \<and> SV_VersionNumber t = n \<and> SV_Active t
          \<and> (\<forall>v \<in> set (pre @ post). SV_SchemaId v = sid \<longrightarrow> \<not> SV_Active v)"
    using split(2,3) rest
    by (intro exI [of _ pre] exI [of _ "?set x"] exI [of _ post]) simp
  have keep1: "filter (\<lambda>v. \<not> SV_SchemaId v = sid) ?cleared
        = filter (\<lambda>v. \<not> SV_SchemaId v = sid) (schemaVersionCollection s)"
    by (rule updateMany_others) simp
  have keep2: "filter (\<lambda>v. \<not> SV_SchemaId v = sid) (updateOne ?T ?set ?cleared)
        = filter (\<lambda>v. \<not> SV_SchemaId v = sid) ?cleared"
    by (rule updateOne_others) simp
  have r1: "fst (updateActiveVersion e sid n s) = None"
    by (simp add: result)
  have r2: "schemaVersionCollection (snd (updateActiveVersion e sid n s)) = updateOne ?T ?set ?cleared"
    by (simp add: result)
  have r3: "\<exists>versions. snd (updateActiveVersion e sid n s) = s\<lparr>schemaVersionCollection := versions\<rparr>"
    unfolding result snd_conv by (rule exI) (rule refl)
  have others: "filter (\<lambda>v. SV_SchemaId v \<noteq> sid) (schemaVersionCollection (snd (updateActiveVersion e sid n s)))
        = filter (\<lambda>v. SV_SchemaId v \<noteq> sid) (schemaVersionCollection s)"
    unfolding r2 using keep2 keep1 by (rule trans)
  from shape have shape': "\<exists>pre t post.
          schemaVersionCollection (snd (updateActiveVersion e sid n s)) = pre @ t # post
          \<and> SV_SchemaId t = sid \<and> SV_VersionNumber t = n \<and> SV_Active t
          \<and> (\<forall>v \<in> set (pre @ post). SV_SchemaId v = sid \<longrightarrow> \<not> SV_Active v)"
    unfolding r2 .
  from r1 shape' others r3 show ?thesis
    by (intro conjI)
qed



text \<open>
  C6: \<open>RollBackVersion\<close> fails when the lookup does not find the schema, or does not
  find the version. With both found and the store answering: when the schema has at
  least two versions and the target is among them, afterwards exactly one version of the
  schema is active, it carries the target number, and the versions of other schemas are
  as they were; when the schema has one version the state is unchanged and the handler
  answers 200 with the details of the schema.
\<close>

theorem RollBackVersion_activates_target:
  assumes bound: "utils_Validate e"
    and store: "fault e CountVersions = None" "fault e UpdateManyVersions = None"
      "fault e UpdateOneVersion = None"
    and count: "count = length (filter (\<lambda>v. SV_SchemaId v = Schema_ID schema) (schemaVersionCollection s))"
  shows
    "(IsSchemaExist e (ToLower e (RBV_SchemaName body)) = (False, schema, None) \<longrightarrow>
        RollBackVersion e body s =
          (AbortWithStatusJSON (SHOWABLE_ERROR_STATUS_CODE e) ''Schema does not exist'', s))
     \<and> (IsSchemaExist e (ToLower e (RBV_SchemaName body)) = (True, schema, None)
         \<and> isSchemaVersionExists e (RBV_VersionNumber body) (Schema_ID schema) = (False, found, None) \<longrightarrow>
        RollBackVersion e body s =
          (AbortWithStatusJSON (SHOWABLE_ERROR_STATUS_CODE e) ''Schema version does not exist'', s))
     \<and> (IsSchemaExist e (ToLower e (RBV_SchemaName body)) = (True, schema, None)
         \<and> isSchemaVersionExists e (RBV_VersionNumber body) (Schema_ID schema) = (True, found, None)
         \<and> list_ex (\<lambda>v. SV_SchemaId v = Schema_ID schema \<and> SV_VersionNumber v = RBV_VersionNumber body)
               (schemaVersionCollection s)
         \<and> count \<ge> 2 \<longrightarrow>
        (\<exists>pre t post.
            schemaVersionCollection (snd (RollBackVersion e body s)) = pre @ t # post
            \<and> SV_SchemaId t = Schema_ID schema \<and> SV_VersionNumber t = RBV_VersionNumber body
            \<and> SV_Active t
            \<and> (\<forall>v \<in> set (pre @ post). SV_SchemaId v = Schema_ID schema \<longrightarrow> \<not> SV_Active v))
        \<and> filter (\<lambda>v. SV_SchemaId v \<noteq> Schema_ID schema) (schemaVersionCollection (snd (RollBackVersion e body s)))
            = filter (\<lambda>v. SV_SchemaId v \<noteq> Schema_ID schema) (schemaVersionCollection s))
     \<and> (IsSchemaExist e (ToLower e (RBV_SchemaName body)) = (True, schema, None)
         \<and> isSchemaVersionExists e (RBV_VersionNumber body) (Schema_ID schema) = (True, found, None)
         \<and> count = 1 \<longrightarrow>
        snd (RollBackVersion e body s) = s
        \<and> (\<forall>details. getExtendedSchemaDetails e schema s = (details, None) \<longrightarrow>
              fst (RollBackVersion e body s) = IndentedJSON 200 (JExtendedSchemaDetails details)))"
proof -
  let ?name = "ToLower e (RBV_SchemaName body)"
  let ?n = "RBV_VersionNumber body"
  let ?sid = "Schema_ID schema"
  have counted: "getVersionsCount e ?sid s = (int count, None)"
    using store(1) count by (simp add: getVersionsCount_def)
  have no_schema: "RollBackVersion e body s =
          (AbortWithStatusJSON (SHOWABLE_ERROR_STATUS_CODE e) ''Schema does not exist'', s)"
    if "IsSchemaExist e ?name = (False, schema, None)"
    using that bound by (simp add: RollBackVersion_def Let_def)
  have no_version: "RollBackVersion e body s =
          (AbortWithStatusJSON (SHOWABLE_ERROR_STATUS_CODE e) ''Schema version does not exist'', s)"
    if "IsSchemaExist e ?name = (True, schema, None)"
      and "isSchemaVersionExists e ?n ?sid = (False, found, None)"
    using that bound by (simp add: RollBackVersion_def Let_def)
  have single: "snd (RollBackVersion e body s) = s
        \<and> (\<forall>details. getExtendedSchemaDetails e schema s = (details, None) \<longrightarrow>
              fst (RollBackVersion e body s) = IndentedJSON 200 (JExtendedSchemaDetails details))"
    if "IsSchemaExist e ?name = (True, schema, None)"
      and "isSchemaVersionExists e ?n ?sid = (True, found, None)" and "count = 1"
    using that bound counted
    by (auto simp: RollBackVersion_def Let_def split: prod.splits option.splits)
  have several: "(\<exists>pre t post.
            schemaVersionCollection (snd (RollBackVersion e body s)) = pre @ t # post
            \<and> SV_SchemaId t = ?sid \<and> SV_VersionNumber t = ?n \<and> SV_Active t
            \<and> (\<forall>v \<in> set (pre @ post). SV_SchemaId v = ?sid \<longrightarrow> \<not> SV_Active v))
        \<and> filter (\<lambda>v. SV_SchemaId v \<noteq> ?sid) (schemaVersionCollection (snd (RollBackVersion e body s)))
            = filter (\<lambda>v. SV_SchemaId v \<noteq> ?sid) (schemaVersionCollection s)"
    if schema: "IsSchemaExist e ?name = (True, schema, None)"
      and version: "isSchemaVersionExists e ?n ?sid = (True, found, None)"
      and target: "list_ex (\<lambda>v. SV_SchemaId v = ?sid \<and> SV_VersionNumber v = ?n) (schemaVersionCollection s)"
      and two: "count \<ge> 2"
  proof -
    note upd = updateActiveVersion_only_target [OF store(2,3) target]
    obtain s1 where s1: "updateActiveVersion e ?sid ?n s = (None, s1)"
      using upd by (cases "updateActiveVersion e ?sid ?n s") auto
    have "snd (RollBackVersion e body s) = s1"
      using schema version bound counted two s1
      by (auto simp: RollBackVersion_def Let_def split: prod.splits option.splits)
    with upd s1 show ?thesis by simp
  qed
  from no_schema no_version single several show ?thesis by blast
qed

theorem RollBackVersion_activates_target_witness:
  "RollBackVersion quietEnv rollback_body stateWithTwoVersions
     = (AbortWithStatusJSON 666 ''Schema does not exist'', stateWithTwoVersions)
   \<and> RollBackVersion foundEnv rollback_missing stateWithTwoVersions
     = (AbortWithStatusJSON 666 ''Schema version does not exist'', stateWithTwoVersions)
   \<and> schemaVersionCollection (snd (RollBackVersion foundEnv rollback_body stateWithTwoVersions))
     = [version1\<lparr>SV_Active := False\<rparr>, version2\<lparr>SV_Active := True\<rparr>]
   \<and> (\<exists>pre t post.
          schemaVersionCollection (snd (RollBackVersion foundEnv rollback_body stateWithTwoVersions)) = pre @ t # post
          \<and> SV_SchemaId t = 100 \<and> SV_VersionNumber t = 2 \<and> SV_Active t
          \<and> list_all (\<lambda>v. \<not> SV_Active v) (pre @ post))
   \<and> snd (RollBackVersion foundEnv rollback_first stateWithSchema) = stateWithSchema
   \<and> fst (RollBackVersion foundEnv rollback_first stateWithSchema)
     = IndentedJSON 200 (JExtendedSchemaDetails
         \<lparr>ESD_ID = 100, ESD_SchemaName = ''orders'', ESD_Type = ''protobuf'',
          ESD_Versions = [version1], ESD_UsedStations = [], ESD_Tags = []\<rparr>)"
proof -
  have env: "utils_Validate quietEnv" "utils_Validate foundEnv"
    "fault quietEnv CountVersions = None" "fault quietEnv UpdateManyVersions = None"
    "fault quietEnv UpdateOneVersion = None"
    "fault foundEnv CountVersions = None" "fault foundEnv UpdateManyVersions = None"
    "fault foundEnv UpdateOneVersion = None"
    "SHOWABLE_ERROR_STATUS_CODE quietEnv = 666" "SHOWABLE_ERROR_STATUS_CODE foundEnv = 666"
    by (simp_all add: foundEnv_def quietEnv_def)
  have lookups:
    "IsSchemaExist quietEnv (ToLower quietEnv (RBV_SchemaName rollback_body)) = (False, zeroSchema, None)"
    "IsSchemaExist foundEnv (ToLower foundEnv (RBV_SchemaName rollback_body)) = (True, schema_orders, None)"
    "IsSchemaExist foundEnv (ToLower foundEnv (RBV_SchemaName rollback_missing)) = (True, schema_orders, None)"
    "IsSchemaExist foundEnv (ToLower foundEnv (RBV_SchemaName rollback_first)) = (True, schema_orders, None)"
    "isSchemaVersionExists foundEnv (RBV_VersionNumber rollback_missing) (Schema_ID schema_orders)
       = (False, zeroSchemaVersion, None)"
    "isSchemaVersionExists foundEnv (RBV_VersionNumber rollback_body) (Schema_ID schema_orders)
       = (True, zeroSchemaVersion, None)"
    "isSchemaVersionExists foundEnv (RBV_VersionNumber rollback_first) (Schema_ID schema_orders)
       = (True, zeroSchemaVersion, None)"
    by (simp_all add: foundEnv_def quietEnv_def rollback_body_def rollback_missing_def rollback_first_def)
  have counts:
    "(2::nat) = length (filter (\<lambda>v. SV_SchemaId v = Schema_ID schema_orders) (schemaVersionCollection stateWithTwoVersions))"
    "(1::nat) = length (filter (\<lambda>v. SV_SchemaId v = Schema_ID schema_orders) (schemaVersionCollection stateWithSchema))"
    by (simp_all add: stateWithTwoVersions_def stateWithSchema_def emptyState_def schema_orders_def
        zeroSchema_def version1_def version2_def)
  have target: "list_ex (\<lambda>v. SV_SchemaId v = Schema_ID schema_orders
                         \<and> SV_VersionNumber v = RBV_VersionNumber rollback_body)
               (schemaVersionCollection stateWithTwoVersions)"
    by (simp add: stateWithTwoVersions_def emptyState_def schema_orders_def version1_def version2_def
        rollback_body_def)
  have sid: "Schema_ID schema_orders = 100" "RBV_VersionNumber rollback_body = 2"
    by (simp_all add: schema_orders_def rollback_body_def)
  have a: "RollBackVersion quietEnv rollback_body stateWithTwoVersions
     = (AbortWithStatusJSON 666 ''Schema does not exist'', stateWithTwoVersions)"
    using RollBackVersion_activates_target
      [where e = quietEnv and schema = zeroSchema and s = stateWithTwoVersions
         and body = rollback_body and found = zeroSchemaVersion, OF env(1) env(3,4,5) refl]
      lookups(1)
    by (simp add: env)
  have b: "RollBackVersion foundEnv rollback_missing stateWithTwoVersions
     = (AbortWithStatusJSON 666 ''Schema version does not exist'', stateWithTwoVersions)"
    using RollBackVersion_activates_target
      [where e = foundEnv and schema = schema_orders and s = stateWithTwoVersions
         and body = rollback_missing and found = zeroSchemaVersion, OF env(2) env(6,7,8) refl]
      lookups(3,5)
    by (simp add: env)
  have c: "schemaVersionCollection (snd (RollBackVersion foundEnv rollback_body stateWithTwoVersions))
     = [version1\<lparr>SV_Active := False\<rparr>, version2\<lparr>SV_Active := True\<rparr>]"
    by (simp add: RollBackVersion_def foundEnv_def quietEnv_def rollback_body_def env_simps
        getVersionsCount_def updateActiveVersion_def updateMany_def getExtendedSchemaDetails_def
        getSchemaVersionsBySchemaId_def getUsingStationsByName_def
        stateWithTwoVersions_def emptyState_def schema_orders_def version1_def version2_def Let_def)
  have d: "\<exists>pre t post.
          schemaVersionCollection (snd (RollBackVersion foundEnv rollback_body stateWithTwoVersions)) = pre @ t # post
          \<and> SV_SchemaId t = 100 \<and> SV_VersionNumber t = 2 \<and> SV_Active t
          \<and> list_all (\<lambda>v. \<not> SV_Active v) (pre @ post)"
  proof -
    from RollBackVersion_activates_target
      [where body = rollback_body and found = zeroSchemaVersion, OF env(2) env(6,7,8) counts(1)]
      lookups(2,6) target
    obtain pre t post where
      shape: "schemaVersionCollection (snd (RollBackVersion foundEnv rollback_body stateWithTwoVersions)) = pre @ t # post"
        "SV_SchemaId t = 100" "SV_VersionNumber t = 2" "SV_Active t"
      and rest: "\<forall>v \<in> set (pre @ post). SV_SchemaId v = 100 \<longrightarrow> \<not> SV_Active v"
      unfolding sid by auto
    from shape(1) have "set (pre @ post) \<subseteq> {version1\<lparr>SV_Active := False\<rparr>, version2\<lparr>SV_Active := True\<rparr>}"
      unfolding c by (auto simp: Cons_eq_append_conv append_eq_Cons_conv)
    then have "\<forall>v \<in> set (pre @ post). SV_SchemaId v = 100"
      by (auto simp: version1_def version2_def)
    with rest have "list_all (\<lambda>v. \<not> SV_Active v) (pre @ post)"
      unfolding list_all_iff by blast
    with shape show ?thesis by blast
  qed
  have e: "snd (RollBackVersion foundEnv rollback_first stateWithSchema) = stateWithSchema
     \<and> fst (RollBackVersion foundEnv rollback_first stateWithSchema)
       = IndentedJSON 200 (JExtendedSchemaDetails
         \<lparr>ESD_ID = 100, ESD_SchemaName = ''orders'', ESD_Type = ''protobuf'',
          ESD_Versions = [version1], ESD_UsedStations = [], ESD_Tags = []\<rparr>)"
  proof -
    have details: "getExtendedSchemaDetails foundEnv schema_orders stateWithSchema
        = (\<lparr>ESD_ID = 100, ESD_SchemaName = ''orders'', ESD_Type = ''protobuf'',
            ESD_Versions = [version1], ESD_UsedStations = [], ESD_Tags = []\<rparr>, None)"
      by (simp add: getExtendedSchemaDetails_def getSchemaVersionsBySchemaId_def
          getUsingStationsByName_def foundEnv_def quietEnv_def stateWithSchema_def emptyState_def
          schema_orders_def version1_def)
    from RollBackVersion_activates_target
      [where body = rollback_first and found = zeroSchemaVersion, OF env(2) env(6,7,8) counts(2)]
      lookups(4,7) details
    show ?thesis by simp
  qed
  from a b c d e show ?thesis by blast
qed

section \<open>Properties of the producers of a station\<close>

lemma partitionProducers_by_name:
  "partitionProducers rows ns c d x = (c', d', x') \<Longrightarrow>
     filter (\<lambda>q. EP_Name q = n) c' = filter (\<lambda>q. EP_Name q = n) c @
        (if n \<in> set ns then []
         else case find (\<lambda>q. EP_Name q = n) rows of
                None \<Rightarrow> []
              | Some r \<Rightarrow> if EP_IsActive r then [r] else [])
     \<and> filter (\<lambda>q. EP_Name q = n) d' = filter (\<lambda>q. EP_Name q = n) d @
        (if n \<in> set ns then []
         else case find (\<lambda>q. EP_Name q = n) rows of
                None \<Rightarrow> []
              | Some r \<Rightarrow> if \<not> EP_IsActive r \<and> \<not> EP_IsDeleted r then [r] else [])
     \<and> filter (\<lambda>q. EP_Name q = n) x' = filter (\<lambda>q. EP_Name q = n) x @
        (if n \<in> set ns then []
         else case find (\<lambda>q. EP_Name q = n) rows of
                None \<Rightarrow> []
              | Some r \<Rightarrow> if \<not> EP_IsActive r \<and> EP_IsDeleted r then [r] else [])"
proof (induction rows arbitrary: ns c d x)
  case Nil
  then show ?case by simp
next
  case (Cons a rows)
  show ?case
  proof (cases "EP_Name a \<in> set ns")
    case True
    with Cons.prems have "partitionProducers rows ns c d x = (c', d', x')"
      by simp
    from Cons.IH [OF this] True show ?thesis
      by (cases "EP_Name a = n") simp_all
  next
    case seen: False
    show ?thesis
    proof (cases "EP_IsActive a")
      case True
      with seen Cons.prems
      have "partitionProducers rows (ns @ [EP_Name a]) (c @ [a]) d x = (c', d', x')"
        by simp
      from Cons.IH [OF this] seen True show ?thesis
        by (cases "EP_Name a = n") simp_all
    next
      case inactive: False
      show ?thesis
      proof (cases "EP_IsDeleted a")
        case True
        with seen inactive Cons.prems
        have "partitionProducers rows (ns @ [EP_Name a]) c d (x @ [a]) = (c', d', x')"
          by simp
        from Cons.IH [OF this] seen inactive True show ?thesis
          by (cases "EP_Name a = n") simp_all
      next
        case False
        with seen inactive Cons.prems
        have "partitionProducers rows (ns @ [EP_Name a]) c (d @ [a]) x = (c', d', x')"
          by simp
        from Cons.IH [OF this] seen inactive False show ?thesis
          by (cases "EP_Name a = n") simp_all
      qed
    qed
  qed
qed

lemma find_newest:
  assumes "sorted_wrt (\<lambda>a b. date b \<le> (date a :: int)) rows"
    and "find P rows = Some r" and "q \<in> set rows" and "P q"
  shows "date q \<le> date r"
  using assms
proof (induction rows)
  case Nil
  then show ?case by simp
next
  case (Cons a rows)
  show ?case
  proof (cases "P a")
    case True
    with Cons.prems(2) have "r = a" by simp
    with Cons.prems(1,3) show ?thesis by auto
  next
    case False
    with Cons.prems have "find P rows = Some r" "q \<in> set rows" "sorted_wrt (\<lambda>a b. date b \<le> date a) rows"
      by auto
    with Cons.IH Cons.prems(4) show ?thesis by blast
  qed
qed

lemma find_in_set: "find P rows = Some r \<Longrightarrow> r \<in> set rows \<and> P r"
  by (induction rows) (auto split: if_splits)

lemma find_exists: "q \<in> set rows \<Longrightarrow> P q \<Longrightarrow> \<exists>r. find P rows = Some r"
  by (induction rows) auto

lemma sorted_desc_sort_key:
  "sorted_wrt (\<lambda>a b. date b \<le> (date a :: int)) (sort_key (\<lambda>p. - date p) xs)"
proof -
  have "sorted (map (\<lambda>p. - date p) (sort_key (\<lambda>p. - date p) xs))"
    by (rule sorted_sort_key)
  then show ?thesis
    by (simp add: sorted_map)
qed


lemma GetProducersByStation_parts:
  assumes "GetProducersByStation e station s = (connected, disconnected, deleted, None)"
  obtains c d x where
    "partitionProducers (aggregateProducersByStation station s) [] [] [] [] = (c, d, x)"
    "connected = sortSlice c" "disconnected = sortSlice d" "deleted = sortSlice x"
  using assms
  by (auto simp: GetProducersByStation_def split: option.splits prod.splits)

lemma filter_sortSlice:
  "filter P (sortSlice xs) = sortSlice (filter P xs)"
  by (simp add: sortSlice_def filter_sort)

lemma set_sortSlice: "set (sortSlice xs) = set xs"
  by (simp add: sortSlice_def)

lemma sortSlice_small: "sortSlice [] = []" "sortSlice [r] = [r]"
  by (simp_all add: sortSlice_def)

lemma aggregate_sorted:
  "sorted_wrt (\<lambda>a b. EP_CreationDate b \<le> EP_CreationDate a) (aggregateProducersByStation station s)"
proof -
  have "sorted_wrt (\<lambda>a b. Producer_CreationDate b \<le> Producer_CreationDate a)
          (sort_key (\<lambda>p. - Producer_CreationDate p)
             (filter (\<lambda>p. Producer_StationId p = Station_ID station) (producersCollection s)))"
    by (rule sorted_desc_sort_key)
  then show ?thesis
    by (simp add: aggregateProducersByStation_def sorted_wrt_map extendProducer_def)
qed

lemma aggregate_set:
  "set (aggregateProducersByStation station s) =
     extendProducer s ` {p \<in> set (producersCollection s). Producer_StationId p = Station_ID station}"
  by (auto simp: aggregateProducersByStation_def)

lemma extendProducer_fields:
  "EP_Name (extendProducer s p) = Producer_Name p"
  "EP_CreationDate (extendProducer s p) = Producer_CreationDate p"
  "EP_IsActive (extendProducer s p) = Producer_IsActive p"
  "EP_IsDeleted (extendProducer s p) = Producer_IsDeleted p"
  by (simp_all add: extendProducer_def)

text \<open>
  C7: when the overview of a station is computed without a store error, and no producer
  row is both deleted and active, then for every producer of the station exactly one row
  with its name is surfaced in the three partitions together; that row belongs to a
  producer of the station with the same name that is at least as new, and it sits in
  \<open>connected\<close> exactly when it is active and not deleted, in \<open>disconnected\<close> exactly
  when it is neither, and in \<open>deleted\<close> exactly when it is deleted. Each partition is
  sorted by creation date, newest first.
\<close>

theorem GetProducersByStation_newest_row_per_name:
  assumes result: "GetProducersByStation e station s = (connected, disconnected, deleted, None)"
    and flags: "deleted_implies_inactive s"
    and p: "p \<in> set (producersCollection s)" "Producer_StationId p = Station_ID station"
  shows "(\<exists>r p'. p' \<in> set (producersCollection s) \<and> Producer_StationId p' = Station_ID station
            \<and> Producer_Name p' = Producer_Name p
            \<and> Producer_CreationDate p \<le> Producer_CreationDate p'
            \<and> r = extendProducer s p'
            \<and> filter (\<lambda>q. EP_Name q = Producer_Name p) (connected @ disconnected @ deleted) = [r]
            \<and> (r \<in> set connected \<longleftrightarrow> EP_IsActive r \<and> \<not> EP_IsDeleted r)
            \<and> (r \<in> set disconnected \<longleftrightarrow> \<not> EP_IsActive r \<and> \<not> EP_IsDeleted r)
            \<and> (r \<in> set deleted \<longleftrightarrow> EP_IsDeleted r))
    \<and> sorted_wrt (\<lambda>a b. EP_CreationDate b \<le> EP_CreationDate a) connected
    \<and> sorted_wrt (\<lambda>a b. EP_CreationDate b \<le> EP_CreationDate a) disconnected
    \<and> sorted_wrt (\<lambda>a b. EP_CreationDate b \<le> EP_CreationDate a) deleted"
proof -
  let ?rows = "aggregateProducersByStation station s"
  let ?n = "Producer_Name p"
  let ?N = "\<lambda>q. EP_Name q = ?n"
  from result obtain c d x where
    parts: "partitionProducers ?rows [] [] [] [] = (c, d, x)"
    and out: "connected = sortSlice c" "disconnected = sortSlice d" "deleted = sortSlice x"
    by (rule GetProducersByStation_parts)
  have sorted_out: "sorted_wrt (\<lambda>a b. EP_CreationDate b \<le> EP_CreationDate a) (sortSlice ys)" for ys
    unfolding sortSlice_def by (rule sorted_desc_sort_key)
  from p have row_p: "extendProducer s p \<in> set ?rows"
    unfolding aggregate_set by blast
  have "?N (extendProducer s p)"
    by (simp add: extendProducer_fields)
  from find_exists [OF row_p, of ?N, OF this] obtain r where found: "find ?N ?rows = Some r"
    by blast
  from find_in_set [OF found] have r_row: "r \<in> set ?rows" and r_name: "EP_Name r = ?n"
    by blast+
  from r_row obtain p' where p': "p' \<in> set (producersCollection s)"
      "Producer_StationId p' = Station_ID station" "r = extendProducer s p'"
    unfolding aggregate_set by blast
  from r_name p'(3) have name': "Producer_Name p' = ?n"
    by (simp add: extendProducer_fields)
  have "EP_CreationDate (extendProducer s p) \<le> EP_CreationDate r"
    using find_newest [of EP_CreationDate ?rows ?N r "extendProducer s p"]
      aggregate_sorted [of station s] found row_p
    by (simp add: extendProducer_fields)
  then have newest: "Producer_CreationDate p \<le> Producer_CreationDate p'"
    by (simp add: p'(3) extendProducer_fields)
  from flags p'(1) have "Producer_IsDeleted p' \<longrightarrow> \<not> Producer_IsActive p'"
    by (simp add: deleted_implies_inactive_def list_all_iff)
  then have inv: "EP_IsDeleted r \<longrightarrow> \<not> EP_IsActive r"
    by (simp add: p'(3) extendProducer_fields)
  from partitionProducers_by_name [OF parts, of ?n] found
  have fc: "filter ?N c = (if EP_IsActive r then [r] else [])"
    and fd: "filter ?N d = (if \<not> EP_IsActive r \<and> \<not> EP_IsDeleted r then [r] else [])"
    and fx: "filter ?N x = (if \<not> EP_IsActive r \<and> EP_IsDeleted r then [r] else [])"
    by simp_all
  have mem: "r \<in> set ys \<longleftrightarrow> r \<in> set (filter ?N ys)" for ys
    using r_name by simp
  have in_c: "r \<in> set connected \<longleftrightarrow> EP_IsActive r \<and> \<not> EP_IsDeleted r"
    unfolding out set_sortSlice mem [of c] fc using inv by auto
  have in_d: "r \<in> set disconnected \<longleftrightarrow> \<not> EP_IsActive r \<and> \<not> EP_IsDeleted r"
    unfolding out set_sortSlice mem [of d] fd by auto
  have in_x: "r \<in> set deleted \<longleftrightarrow> EP_IsDeleted r"
    unfolding out set_sortSlice mem [of x] fx using inv by auto
  have one: "filter ?N (connected @ disconnected @ deleted) = [r]"
    unfolding out filter_append filter_sortSlice fc fd fx
    by (simp add: sortSlice_small)
  from p'(1,2) name' newest p'(3) one in_c in_d in_x
  have "\<exists>r p'. p' \<in> set (producersCollection s) \<and> Producer_StationId p' = Station_ID station
            \<and> Producer_Name p' = Producer_Name p
            \<and> Producer_CreationDate p \<le> Producer_CreationDate p'
            \<and> r = extendProducer s p'
            \<and> filter (\<lambda>q. EP_Name q = Producer_Name p) (connected @ disconnected @ deleted) = [r]
            \<and> (r \<in> set connected \<longleftrightarrow> EP_IsActive r \<and> \<not> EP_IsDeleted r)
            \<and> (r \<in> set disconnected \<longleftrightarrow> \<not> EP_IsActive r \<and> \<not> EP_IsDeleted r)
            \<and> (r \<in> set deleted \<longleftrightarrow> EP_IsDeleted r)"
    by blast
  with sorted_out show ?thesis
    unfolding out by blast
qed


theorem GetProducersByStation_newest_row_per_name_witness:
  "GetProducersByStation quietEnv station5 stateWithHistory
     = ([extendProducer stateWithHistory producer_p3, extendProducer stateWithHistory producer_p1],
        [],
        [extendProducer stateWithHistory producer_p2], None)
   \<and> deleted_implies_inactive stateWithHistory
   \<and> old_p1 \<in> set (producersCollection stateWithHistory)
   \<and> Producer_StationId old_p1 = Station_ID station5
   \<and> filter (\<lambda>q. EP_Name q = Producer_Name old_p1)
         ([extendProducer stateWithHistory producer_p3, extendProducer stateWithHistory producer_p1]
          @ [] @ [extendProducer stateWithHistory producer_p2])
       = [extendProducer stateWithHistory producer_p1]
   \<and> sorted_wrt (\<lambda>a b. EP_CreationDate b \<le> EP_CreationDate a)
         [extendProducer stateWithHistory producer_p3, extendProducer stateWithHistory producer_p1]"
proof -
  have rows: "producersCollection stateWithHistory = [old_p1, producer_p1, producer_p2, producer_p3]"
    by (simp add: stateWithHistory_def emptyState_def)
  have result: "GetProducersByStation quietEnv station5 stateWithHistory
     = ([extendProducer stateWithHistory producer_p3, extendProducer stateWithHistory producer_p1],
        [],
        [extendProducer stateWithHistory producer_p2], None)"
    by (simp add: GetProducersByStation_def aggregateProducersByStation_def sortSlice_def rows
        quietEnv_def station5_def old_p1_def producer_p1_def producer_p2_def producer_p3_def
        extendProducer_def)
  have flags: "deleted_implies_inactive stateWithHistory"
    by (simp add: deleted_implies_inactive_def rows old_p1_def producer_p1_def producer_p2_def
        producer_p3_def)
  have p: "old_p1 \<in> set (producersCollection stateWithHistory)"
    "Producer_StationId old_p1 = Station_ID station5"
    by (simp_all add: rows old_p1_def producer_p1_def station5_def)
  have one: "filter (\<lambda>q. EP_Name q = Producer_Name old_p1)
         ([extendProducer stateWithHistory producer_p3, extendProducer stateWithHistory producer_p1]
          @ [] @ [extendProducer stateWithHistory producer_p2])
       = [extendProducer stateWithHistory producer_p1]"
    by (simp add: extendProducer_def old_p1_def producer_p1_def producer_p2_def producer_p3_def)
  from GetProducersByStation_newest_row_per_name [OF result flags p]
  have "sorted_wrt (\<lambda>a b. EP_CreationDate b \<le> EP_CreationDate a)
         [extendProducer stateWithHistory producer_p3, extendProducer stateWithHistory producer_p1]"
    by blast
  with result flags p one show ?thesis by blast
qed

end
